theory Spec2Isabelle
  imports Complex_Main
begin

section \<open>JavaScript values used by the analyser\<close>

text \<open>
  The page component \<^verbatim>\<open>src/app/page.tsx\<close> works on browser statistics objects typed
  \<^verbatim>\<open>any\<close>. A field that may be missing is an \<open>option\<close> (\<open>None\<close> is \<^verbatim>\<open>undefined\<close>).
  Counters are the unsigned integers of the statistics dictionaries (\<open>nat\<close>); time stamps,
  round-trip times and bit rates are numbers with a fractional part (\<open>rat\<close>; rounding
  error, NaN and infinities of the double format are outside the model). Strings are byte
  strings; case mapping and white space are those of ASCII.
\<close>

text \<open>
  Decimal rendering of an integer in a template literal: all its digits (an integer that a
  double holds exactly, so up to \<open>2^53\<close>).
\<close>

function js_string_of_nat :: "nat \<Rightarrow> string" where
  "js_string_of_nat n =
     (if n < 10 then [''0123456789'' ! n]
      else js_string_of_nat (n div 10) @ [''0123456789'' ! (n mod 10)])"
  by pat_completeness auto
termination
  by (relation "measure id") auto

declare js_string_of_nat.simps [simp del]

definition js_string_of_int :: "int \<Rightarrow> string" where
  "js_string_of_int i =
     (if i < 0 then CHR ''-'' # js_string_of_nat (nat (- i)) else js_string_of_nat (nat i))"

text \<open>\<^verbatim>\<open>x || 0\<close> on a counter: \<^verbatim>\<open>undefined\<close> and \<open>0\<close> both give \<open>0\<close>.\<close>

definition num_or_zero :: "nat option \<Rightarrow> nat" where
  "num_or_zero x = (case x of None \<Rightarrow> 0 | Some n \<Rightarrow> n)"

text \<open>Truthiness of an optional number: defined and not zero.\<close>

definition truthy_num :: "rat option \<Rightarrow> bool" where
  "truthy_num x = (case x of None \<Rightarrow> False | Some v \<Rightarrow> v \<noteq> 0)"

text \<open>\<^verbatim>\<open>Math.round\<close>: the nearest integer, a tie going up.\<close>

definition js_round :: "rat \<Rightarrow> int" where
  "js_round x = \<lfloor>x + 1 / 2\<rfloor>"

text \<open>A possibly missing string inside a template literal.\<close>

definition js_template :: "string option \<Rightarrow> string" where
  "js_template x = (case x of None \<Rightarrow> ''undefined'' | Some s \<Rightarrow> s)"

text \<open>\<^verbatim>\<open>s || d\<close> on a possibly missing string: the empty string is falsy too.\<close>

definition str_or :: "string option \<Rightarrow> string \<Rightarrow> string" where
  "str_or x d = (case x of None \<Rightarrow> d | Some s \<Rightarrow> if s = [] then d else s)"

definition is_js_space :: "char \<Rightarrow> bool" where
  "is_js_space c = (let n = (of_char c :: nat) in (9 \<le> n \<and> n \<le> 13) \<or> n = 32)"

definition toLowerCase :: "string \<Rightarrow> string" where
  "toLowerCase s =
     map (\<lambda>c. let n = (of_char c :: nat) in if 65 \<le> n \<and> n \<le> 90 then char_of (n + 32) else c) s"

text \<open>\<^verbatim>\<open>str.split(' ')\<close>: always at least one part, empty parts are kept.\<close>

fun split_on :: "char \<Rightarrow> string \<Rightarrow> string list" where
  "split_on sep [] = [[]]"
| "split_on sep (c # cs) =
     (if c = sep then [] # split_on sep cs
      else (case split_on sep cs of
              [] \<Rightarrow> [[c]]
            | w # ws \<Rightarrow> (c # w) # ws))"

text \<open>\<^verbatim>\<open>parts[i]\<close>: \<^verbatim>\<open>undefined\<close> beyond the end of the array.\<close>

definition js_index :: "'a list \<Rightarrow> nat \<Rightarrow> 'a option" where
  "js_index xs i = (if i < length xs then Some (xs ! i) else None)"

text \<open>
  \<^verbatim>\<open>parseInt(s)\<close> with no radix: leading white space is skipped, then an optional sign,
  then an optional \<^verbatim>\<open>0x\<close> prefix (radix 16), then the longest run of digits of the radix;
  no digit at all gives NaN, here \<open>None\<close>. \<^verbatim>\<open>parseInt(undefined)\<close> is NaN.
\<close>

definition digit_val :: "char \<Rightarrow> nat option" where
  "digit_val c =
     (let n = (of_char c :: nat) in
      if 48 \<le> n \<and> n \<le> 57 then Some (n - 48)
      else if 97 \<le> n \<and> n \<le> 122 then Some (n - 87)
      else if 65 \<le> n \<and> n \<le> 90 then Some (n - 55)
      else None)"

definition is_digit_of :: "nat \<Rightarrow> char \<Rightarrow> bool" where
  "is_digit_of radix c = (case digit_val c of None \<Rightarrow> False | Some d \<Rightarrow> d < radix)"

definition digits_value :: "nat \<Rightarrow> string \<Rightarrow> nat" where
  "digits_value radix ds =
     foldl (\<lambda>acc c. acc * radix + (case digit_val c of None \<Rightarrow> 0 | Some d \<Rightarrow> d)) 0 ds"

definition parseInt :: "string option \<Rightarrow> int option" where
  "parseInt arg =
     (case arg of
        None \<Rightarrow> None
      | Some str \<Rightarrow>
          (let s = dropWhile is_js_space str;
               (sign, s1) = (case s of
                               [] \<Rightarrow> (1, [])
                             | c # cs \<Rightarrow> if c = CHR ''-'' then (- 1, cs)
                                         else if c = CHR ''+'' then (1, cs)
                                         else (1, s));
               (radix, s2) = (case s1 of
                                a # b # cs \<Rightarrow>
                                  if a = CHR ''0'' \<and> (b = CHR ''x'' \<or> b = CHR ''X'')
                                  then (16, cs) else (10, s1)
                              | _ \<Rightarrow> (10, s1));
               ds = takeWhile (is_digit_of radix) s2
           in if ds = [] then None else Some (sign * int (digits_value radix ds))))"

text \<open>\<^verbatim>\<open>parseInt(s) || 0\<close>: NaN and \<open>0\<close> both give \<open>0\<close>.\<close>

definition int_or_zero :: "int option \<Rightarrow> int" where
  "int_or_zero x = (case x of None \<Rightarrow> 0 | Some n \<Rightarrow> n)"


section \<open>Candidate descriptors\<close>

text \<open>
  The fields of the browser's \<^verbatim>\<open>RTCIceCandidate\<close> that the page reads: the descriptor
  string, and the nullable \<^verbatim>\<open>type\<close> and \<^verbatim>\<open>foundation\<close> attributes.
\<close>

record RTCIceCandidate =
  cand_candidate :: string
  cand_type :: "string option"
  cand_foundation :: "string option"

record ICECandidateInfo =
  info_candidate :: string
  info_type :: string
  info_protocol :: string
  info_address :: string
  info_port :: int
  info_priority :: int
  info_foundation :: string

text \<open>
  \<^verbatim>\<open>parseICECandidate\<close>: \<open>None\<close> is \<^verbatim>\<open>null\<close>. On a descriptor that is a string no
  operation of the body raises, so the \<^verbatim>\<open>catch\<close> branch (which returns \<^verbatim>\<open>null\<close>
  as well) has no case of its own.
\<close>

definition parseICECandidate :: "RTCIceCandidate \<Rightarrow> ICECandidateInfo option" where
  "parseICECandidate candidate =
     (let parts = split_on CHR '' '' (cand_candidate candidate) in
      if length parts < 6 then None
      else Some \<lparr>
        info_candidate = cand_candidate candidate,
        info_type = str_or (cand_type candidate) ''unknown'',
        info_protocol = str_or (map_option toLowerCase (js_index parts 2)) ''unknown'',
        info_address = str_or (js_index parts 4) ''unknown'',
        info_port = int_or_zero (parseInt (js_index parts 5)),
        info_priority = int_or_zero (parseInt (js_index parts 3)),
        info_foundation = str_or (js_index parts 0) ''unknown'' \<rparr>)"


section \<open>Statistics records\<close>

text \<open>
  A candidate record of a statistics report. \<^verbatim>\<open>candidateType\<close> is a required member of
  the dictionary; the other members may be missing.
\<close>

record candidate_stats =
  candidateType :: string
  address :: "string option"
  port :: "nat option"
  protocol :: "string option"

record pair_stats =
  localCandidateId :: string
  remoteCandidateId :: string
  state :: string
  nominated :: "bool option"
  priority :: "nat option"
  requestsSent :: "nat option"
  requestsReceived :: "nat option"
  responsesSent :: "nat option"
  responsesReceived :: "nat option"
  lastPacketSentTimestamp :: "rat option"
  lastPacketReceivedTimestamp :: "rat option"
  totalRoundTripTime :: "rat option"
  currentRoundTripTime :: "rat option"
  availableOutgoingBitrate :: "rat option"


section \<open>Failure analysis\<close>

record analysis =
  reason :: string
  details :: string
  suggestions :: "string list"

datatype js_error = TypeError

definition initial_analysis :: analysis where
  "initial_analysis = \<lparr> reason = ''Connection failed'', details = [], suggestions = [] \<rparr>"

text \<open>The chain "Analyze based on packet patterns" of \<^verbatim>\<open>analyzeConnectionFailure\<close>.\<close>

definition packet_pattern_analysis ::
  "pair_stats \<Rightarrow> candidate_stats \<Rightarrow> candidate_stats \<Rightarrow> analysis \<Rightarrow> analysis" where
  "packet_pattern_analysis pair localCandidate remoteCandidate a =
     (let sentPackets = num_or_zero (requestsSent pair);
          receivedPackets = num_or_zero (requestsReceived pair);
          sentResponses = num_or_zero (responsesSent pair);
          receivedResponses = num_or_zero (responsesReceived pair)
      in
      if sentPackets = 0 \<and> receivedPackets = 0 then
        a\<lparr> reason := ''No communication attempted - candidate pair was not selected for testing'',
           details := ''This path was deprioritized or testing was stopped early'' \<rparr>
      else if sentPackets > 0 \<and> receivedPackets = 0 then
        (let a1 = a\<lparr> reason := ''Outbound packets sent but no response received'',
                      details := ''Sent '' @ js_string_of_nat sentPackets
                                 @ '' requests, received 0 responses'' \<rparr>
         in
         if candidateType localCandidate = ''relay'' \<or> candidateType remoteCandidate = ''relay'' then
           a1\<lparr> suggestions := suggestions a1 @
                 [''TURN server may be unreachable or credentials invalid'',
                  ''Check TURN server configuration and network connectivity''] \<rparr>
         else if candidateType localCandidate = ''srflx'' \<or> candidateType remoteCandidate = ''srflx'' then
           a1\<lparr> suggestions := suggestions a1 @
                 [''NAT/Firewall may be blocking incoming connections'',
                  ''STUN server may have provided incorrect reflexive address''] \<rparr>
         else if candidateType localCandidate = ''host'' \<and> candidateType remoteCandidate = ''host'' then
           a1\<lparr> suggestions := suggestions a1 @
                 [''Direct connection blocked - peers may be on different networks'',
                  ''Firewall or network policy preventing direct communication''] \<rparr>
         else a1)
      else if sentPackets > 0 \<and> receivedPackets > 0 \<and> receivedResponses = 0 then
        a\<lparr> reason := ''Partial communication - requests received but responses not getting back'',
           details := ''Sent '' @ js_string_of_nat sentPackets @ '' requests, received ''
                      @ js_string_of_nat receivedPackets @ '' requests, but no responses returned'',
           suggestions := suggestions a @
                 [''Asymmetric routing issue - return path may be blocked'',
                  ''Remote peer may have connectivity issues''] \<rparr>
      else if receivedResponses > 0 \<and> sentResponses = 0 then
        a\<lparr> reason := ''Response delivery failure - unable to send responses back'',
           details := ''Received '' @ js_string_of_nat receivedResponses
                      @ '' responses but couldn't send any back'',
           suggestions := suggestions a @
                 [''Local network may be blocking outbound responses''] \<rparr>
      else
        a\<lparr> reason := ''Communication timeout or authentication failure'',
           details := ''Sent: '' @ js_string_of_nat sentPackets @ '' requests, ''
                      @ js_string_of_nat sentResponses @ '' responses | Received: ''
                      @ js_string_of_nat receivedPackets @ '' requests, ''
                      @ js_string_of_nat receivedResponses @ '' responses'' \<rparr>)"

text \<open>"Add protocol-specific analysis".\<close>

definition protocol_analysis :: "candidate_stats \<Rightarrow> candidate_stats \<Rightarrow> analysis \<Rightarrow> analysis" where
  "protocol_analysis localCandidate remoteCandidate a =
     (if protocol localCandidate \<noteq> protocol remoteCandidate then
        a\<lparr> suggestions := suggestions a @
              [''Protocol mismatch: '' @ js_template (protocol localCandidate) @ '' vs ''
               @ js_template (protocol remoteCandidate)] \<rparr>
      else a)"

text \<open>"Add timing analysis if available".\<close>

definition timing_analysis :: "pair_stats \<Rightarrow> analysis \<Rightarrow> analysis" where
  "timing_analysis pair a =
     (if truthy_num (lastPacketSentTimestamp pair) \<and> truthy_num (lastPacketReceivedTimestamp pair) then
        (case (lastPacketReceivedTimestamp pair, lastPacketSentTimestamp pair) of
           (Some received, Some sent) \<Rightarrow>
             (let timeDiff = received - sent in
              if timeDiff > 5000 then
                a\<lparr> details := details a @ '' | Large time gap (''
                      @ js_string_of_int (js_round (timeDiff / 1000))
                      @ ''s) suggests network instability'' \<rparr>
              else a)
         | _ \<Rightarrow> a)
      else a)"

definition getNetworkTopologyInsight :: "candidate_stats \<Rightarrow> candidate_stats \<Rightarrow> string" where
  "getNetworkTopologyInsight localCandidate remoteCandidate =
     (let localType = candidateType localCandidate;
          remoteType = candidateType remoteCandidate
      in
      if localType = ''host'' \<and> remoteType = ''host'' then
        ''Direct peer-to-peer attempt - both peers must be on same network or have public IPs''
      else if localType = ''host'' \<and> remoteType = ''srflx'' then
        ''Local is direct, remote is behind NAT - remote may not accept incoming connections''
      else if localType = ''srflx'' \<and> remoteType = ''srflx'' then
        ''Both peers behind NAT - may need TURN relay if NAT types are incompatible''
      else if localType = ''relay'' \<or> remoteType = ''relay'' then
        ''Using TURN relay - should work unless TURN server is misconfigured''
      else if localType = ''prflx'' \<or> remoteType = ''prflx'' then
        ''Peer-reflexive discovery - connection path found during connectivity checks''
      else [])"

text \<open>"Add network topology insights": the empty string is falsy and is not pushed.\<close>

definition topology_analysis :: "candidate_stats \<Rightarrow> candidate_stats \<Rightarrow> analysis \<Rightarrow> analysis" where
  "topology_analysis localCandidate remoteCandidate a =
     (let networkInsight = getNetworkTopologyInsight localCandidate remoteCandidate in
      if networkInsight \<noteq> [] then a\<lparr> suggestions := suggestions a
          @ [networkInsight] \<rparr> else a)"

text \<open>
  \<^verbatim>\<open>analyzeConnectionFailure(pair, localCandidate, remoteCandidate)\<close>. The candidates come
  from a map lookup and may be \<^verbatim>\<open>undefined\<close>: reading \<^verbatim>\<open>.protocol\<close> of an undefined
  candidate raises a TypeError, and every path through the function reads it of both.
\<close>

definition analyzeConnectionFailure ::
  "pair_stats \<Rightarrow> candidate_stats option \<Rightarrow> candidate_stats option \<Rightarrow> js_error + analysis" where
  "analyzeConnectionFailure pair localCandidate remoteCandidate =
     (case (localCandidate, remoteCandidate) of
        (Some l, Some r) \<Rightarrow>
          Inr (topology_analysis l r
                (timing_analysis pair
                  (protocol_analysis l r
                    (packet_pattern_analysis pair l r initial_analysis))))
      | _ \<Rightarrow> Inl TypeError)"

text \<open>
  The decision order as the specification words it: five rules over the four counters
  (requests sent, requests received, responses sent, responses received), the first rule
  that matches wins.
\<close>

datatype rule =
  NotSelectedForTesting | NoResponseToOutboundChecks | AsymmetricPath
  | UnableToSendResponses | TimeoutOrAuthenticationFailure

fun first_match :: "(('a \<Rightarrow> bool) \<times> 'b) list \<Rightarrow> 'b \<Rightarrow> 'a \<Rightarrow> 'b" where
  "first_match [] otherwise x = otherwise"
| "first_match ((cond, r) # rest) otherwise x = (if cond x then r else first_match rest otherwise x)"

definition spec_decision_order :: "nat \<times> nat \<times> nat \<times> nat \<Rightarrow> rule" where
  "spec_decision_order =
     first_match
       [(\<lambda>(reqSent, reqRecv, respSent, respRecv). reqSent = 0 \<and> reqRecv = 0, NotSelectedForTesting),
        (\<lambda>(reqSent, reqRecv, respSent, respRecv). reqSent > 0 \<and> reqRecv = 0, NoResponseToOutboundChecks),
        (\<lambda>(reqSent, reqRecv, respSent, respRecv). reqSent > 0 \<and> reqRecv > 0 \<and> respRecv = 0, AsymmetricPath),
        (\<lambda>(reqSent, reqRecv, respSent, respRecv). respRecv > 0 \<and> respSent = 0, UnableToSendResponses)]
       TimeoutOrAuthenticationFailure"

text \<open>The reason text the code gives to each of the specification's five rules.\<close>

fun rule_reason :: "rule \<Rightarrow> string" where
  "rule_reason NotSelectedForTesting =
     ''No communication attempted - candidate pair was not selected for testing''"
| "rule_reason NoResponseToOutboundChecks = ''Outbound packets sent but no response received''"
| "rule_reason AsymmetricPath =
     ''Partial communication - requests received but responses not getting back''"
| "rule_reason UnableToSendResponses = ''Response delivery failure - unable to send responses back''"
| "rule_reason TimeoutOrAuthenticationFailure = ''Communication timeout or authentication failure''"

definition counters :: "pair_stats \<Rightarrow> nat \<times> nat \<times> nat \<times> nat" where
  "counters pair =
     (num_or_zero (requestsSent pair), num_or_zero (requestsReceived pair),
      num_or_zero (responsesSent pair), num_or_zero (responsesReceived pair))"


text \<open>
  The suggestions that depend on the two candidates only: the protocol mismatch and the
  topology insight, in the order the function pushes them.
\<close>

definition candidate_suggestions :: "candidate_stats \<Rightarrow> candidate_stats \<Rightarrow> string list" where
  "candidate_suggestions l r = suggestions (topology_analysis l r (protocol_analysis l r initial_analysis))"


subsection \<open>Example inputs\<close>

definition unselected_pair :: pair_stats where
  "unselected_pair = \<lparr> localCandidateId = ''L1'', remoteCandidateId = ''R1'', state = ''failed'',
     nominated = Some False, priority = Some 100,
     requestsSent = None, requestsReceived = Some 0,
     responsesSent = Some 3, responsesReceived = Some 7,
     lastPacketSentTimestamp = Some 1000, lastPacketReceivedTimestamp = Some 2000,
     totalRoundTripTime = None, currentRoundTripTime = None, availableOutgoingBitrate = None \<rparr>"

definition host_udp :: candidate_stats where
  "host_udp = \<lparr> candidateType = ''host'', address = Some ''192.168.1.10'', port = Some 50000,
     protocol = Some ''udp'' \<rparr>"

definition relay_udp :: candidate_stats where
  "relay_udp = \<lparr> candidateType = ''relay'', address = Some ''203.0.113.5'', port = Some 3478,
     protocol = Some ''udp'' \<rparr>"

definition srflx_tcp :: candidate_stats where
  "srflx_tcp = \<lparr> candidateType = ''srflx'', address = Some ''198.51.100.7'', port = Some 61000,
     protocol = Some ''tcp'' \<rparr>"


text \<open>
  The sub-classification of the "no response" rule as the specification words it: a relay
  on either side, otherwise a server-reflexive candidate on either side, otherwise host
  on both sides; with the hints the code gives for each.
\<close>

definition spec_kind_suggestions :: "candidate_stats \<Rightarrow> candidate_stats \<Rightarrow> string list" where
  "spec_kind_suggestions l r =
     (if candidateType l = ''relay'' \<or> candidateType r = ''relay'' then
        [''TURN server may be unreachable or credentials invalid'',
         ''Check TURN server configuration and network connectivity'']
      else if candidateType l = ''srflx'' \<or> candidateType r = ''srflx'' then
        [''NAT/Firewall may be blocking incoming connections'',
         ''STUN server may have provided incorrect reflexive address'']
      else if candidateType l = ''host'' \<and> candidateType r = ''host'' then
        [''Direct connection blocked - peers may be on different networks'',
         ''Firewall or network policy preventing direct communication'']
      else [])"

definition scenario_a_pair :: pair_stats where
  "scenario_a_pair = \<lparr> localCandidateId = ''L2'', remoteCandidateId = ''R2'', state = ''failed'',
     nominated = None, priority = Some 200,
     requestsSent = Some 4, requestsReceived = Some 0,
     responsesSent = None, responsesReceived = None,
     lastPacketSentTimestamp = None, lastPacketReceivedTimestamp = None,
     totalRoundTripTime = None, currentRoundTripTime = None, availableOutgoingBitrate = None \<rparr>"

definition sent_later_pair :: pair_stats where
  "sent_later_pair = \<lparr> localCandidateId = ''L3'', remoteCandidateId = ''R3'', state = ''failed'',
     nominated = None, priority = Some 300,
     requestsSent = Some 0, requestsReceived = Some 0,
     responsesSent = Some 0, responsesReceived = Some 0,
     lastPacketSentTimestamp = Some 7000, lastPacketReceivedTimestamp = Some 1000,
     totalRoundTripTime = None, currentRoundTripTime = None, availableOutgoingBitrate = None \<rparr>"

definition received_later_pair :: pair_stats where
  "received_later_pair = sent_later_pair \<lparr> lastPacketSentTimestamp := Some 1000,
     lastPacketReceivedTimestamp := Some 7000 \<rparr>"

definition zero_stamp_pair :: pair_stats where
  "zero_stamp_pair = sent_later_pair \<lparr> lastPacketSentTimestamp := Some 0,
     lastPacketReceivedTimestamp := Some 6000 \<rparr>"


definition short_candidate :: RTCIceCandidate where
  "short_candidate = \<lparr> cand_candidate = ''candidate:1 1 udp'', cand_type = Some ''host'',
     cand_foundation = Some ''1'' \<rparr>"

definition garbled_candidate :: RTCIceCandidate where
  "garbled_candidate = \<lparr> cand_candidate = ''candidate:7 1 UDP high 10.0.0.2 port typ host'',
     cand_type = Some ''host'', cand_foundation = Some ''7'' \<rparr>"


section \<open>The message log\<close>

text \<open>
  \<^verbatim>\<open>addMessage(text, type)\<close> appends to the message list
  (\<^verbatim>\<open>setMessages(prev => [...prev, {text, type, timestamp}])\<close>). The wall-clock
  \<^verbatim>\<open>timestamp\<close> of a message is left out. Texts are the UTF-8 bytes of the source's
  literals; the characters outside ASCII are named below.
\<close>

datatype message_type = MsgSent | MsgReceived | MsgSystem | MsgError | MsgIceDebug

record message =
  msg_text :: string
  msg_type :: message_type

definition addMessage :: "string \<Rightarrow> message_type \<Rightarrow> message list \<Rightarrow> message list" where
  "addMessage t ty prev = prev @ [\<lparr> msg_text = t, msg_type = ty \<rparr>]"

definition utf8_bullet :: string where
  "utf8_bullet = [CHR 0xE2, CHR 0x80, CHR 0xA2]"

definition utf8_bar_chart :: string where
  "utf8_bar_chart = [CHR 0xF0, CHR 0x9F, CHR 0x93, CHR 0x8A]"

definition utf8_check_mark :: string where
  "utf8_check_mark = [CHR 0xE2, CHR 0x9C, CHR 0x85]"

definition utf8_left_right_arrow :: string where
  "utf8_left_right_arrow = [CHR 0xE2, CHR 0x86, CHR 0x94]"

definition utf8_wrench :: string where
  "utf8_wrench = [CHR 0xF0, CHR 0x9F, CHR 0x94, CHR 0xA7]"

definition utf8_light_bulb :: string where
  "utf8_light_bulb = [CHR 0xF0, CHR 0x9F, CHR 0x92, CHR 0xA1]"

definition utf8_cross_mark :: string where
  "utf8_cross_mark = [CHR 0xE2, CHR 0x9D, CHR 0x8C]"

definition utf8_magnifying_glass :: string where
  "utf8_magnifying_glass = [CHR 0xF0, CHR 0x9F, CHR 0x94, CHR 0x8D]"

definition utf8_circle_arrows :: string where
  "utf8_circle_arrows = [CHR 0xF0, CHR 0x9F, CHR 0x94, CHR 0x84]"

definition utf8_hourglass :: string where
  "utf8_hourglass = [CHR 0xE2, CHR 0x8F, CHR 0xB3]"

definition utf8_crown :: string where
  "utf8_crown = [CHR 0xF0, CHR 0x9F, CHR 0x91, CHR 0x91]"

definition utf8_high_voltage :: string where
  "utf8_high_voltage = [CHR 0xE2, CHR 0x9A, CHR 0xA1]"

definition utf8_sleeping_symbol :: string where
  "utf8_sleeping_symbol = [CHR 0xF0, CHR 0x9F, CHR 0x92, CHR 0xA4]"

definition utf8_trophy :: string where
  "utf8_trophy = [CHR 0xF0, CHR 0x9F, CHR 0x8F, CHR 0x86]"

definition utf8_party_popper :: string where
  "utf8_party_popper = [CHR 0xF0, CHR 0x9F, CHR 0x8E, CHR 0x89]"

definition utf8_microphone :: string where
  "utf8_microphone = [CHR 0xF0, CHR 0x9F, CHR 0x8E, CHR 0xA4]"

definition utf8_muted_speaker :: string where
  "utf8_muted_speaker = [CHR 0xF0, CHR 0x9F, CHR 0x94, CHR 0x87]"

definition utf8_warning_sign :: string where
  "utf8_warning_sign = [CHR 0xE2, CHR 0x9A, CHR 0xA0]"

definition utf8_variation_selector :: string where
  "utf8_variation_selector = [CHR 0xEF, CHR 0xB8, CHR 0x8F]"

definition utf8_musical_note :: string where
  "utf8_musical_note = [CHR 0xF0, CHR 0x9F, CHR 0x8E, CHR 0xB5]"

definition utf8_memo :: string where
  "utf8_memo = [CHR 0xF0, CHR 0x9F, CHR 0x93, CHR 0x9D]"

definition utf8_gear :: string where
  "utf8_gear = [CHR 0xE2, CHR 0x9A, CHR 0x99]"

definition utf8_incoming_envelope :: string where
  "utf8_incoming_envelope = [CHR 0xF0, CHR 0x9F, CHR 0x93, CHR 0xA8]"


text \<open>A possibly missing number inside a template literal.\<close>

definition js_template_nat :: "nat option \<Rightarrow> string" where
  "js_template_nat x = (case x of None \<Rightarrow> ''undefined'' | Some n \<Rightarrow> js_string_of_nat n)"

definition toUpperCase :: "string \<Rightarrow> string" where
  "toUpperCase s =
     map (\<lambda>c. let n = (of_char c :: nat) in if 97 \<le> n \<and> n \<le> 122 then char_of (n - 32) else c) s"

text \<open>
  \<^verbatim>\<open>x.toFixed(2)\<close>: the sign, then the integer \<open>n\<close> nearest to \<open>100 * |x|\<close> (the larger
  one on a tie) written with two digits after the point (of the exact value, below \<open>10^21\<close>).
\<close>

definition js_toFixed2 :: "rat \<Rightarrow> string" where
  "js_toFixed2 x =
     (let n = nat \<lfloor>\<bar>x\<bar> * 100 + 1 / 2\<rfloor> in
      (if x < 0 then ''-'' else []) @ js_string_of_nat (n div 100) @ ''.''
      @ js_string_of_nat (n mod 100 div 10) @ js_string_of_nat (n mod 10))"


section \<open>JavaScript maps and array loops\<close>

text \<open>
  A \<^verbatim>\<open>Map\<close> is the list of its entries in insertion order: \<^verbatim>\<open>set\<close> on a key that is
  present replaces the value in place, on a new key it appends the entry; \<^verbatim>\<open>forEach\<close>
  visits the entries in list order.
\<close>

fun Map_set :: "'k \<Rightarrow> 'v \<Rightarrow> ('k \<times> 'v) list \<Rightarrow> ('k \<times> 'v) list" where
  "Map_set k v [] = [(k, v)]"
| "Map_set k v ((k', v') # m) = (if k' = k then (k, v) # m else (k', v') # Map_set k v m)"

definition Map_get :: "('k \<times> 'v) list \<Rightarrow> 'k \<Rightarrow> 'v option" where
  "Map_get m k = map_of m k"

text \<open>\<^verbatim>\<open>array.forEach((x, index) => ...)\<close> as a loop over a state.\<close>

fun forEach_from :: "nat \<Rightarrow> (nat \<Rightarrow> 'a \<Rightarrow> 's \<Rightarrow> 's) \<Rightarrow> 'a list \<Rightarrow> 's \<Rightarrow> 's" where
  "forEach_from i f [] s = s"
| "forEach_from i f (x # xs) s = forEach_from (Suc i) f xs (f i x s)"

definition forEach :: "(nat \<Rightarrow> 'a \<Rightarrow> 's \<Rightarrow> 's) \<Rightarrow> 'a list \<Rightarrow> 's \<Rightarrow> 's" where
  "forEach f xs s = forEach_from 0 f xs s"

text \<open>
  A loop whose body may raise: it stops at the first error, with the messages added so far.
\<close>

fun forEach_try ::
  "('a \<Rightarrow> message list \<Rightarrow> js_error option \<times> message list) \<Rightarrow> 'a list \<Rightarrow> message list
     \<Rightarrow> js_error option \<times> message list" where
  "forEach_try f [] msgs = (None, msgs)"
| "forEach_try f (x # xs) msgs =
     (case f x msgs of
        (Some e, msgs') \<Rightarrow> (Some e, msgs')
      | (None, msgs') \<Rightarrow> forEach_try f xs msgs')"


section \<open>Candidate summary\<close>

definition candidate_type_descriptions :: "(string \<times> string) list" where
  "candidate_type_descriptions =
     [(''host'', ''Direct connection (same network)''),
      (''srflx'', ''Server reflexive (through NAT/firewall)''),
      (''prflx'', ''Peer reflexive (discovered during connectivity)''),
      (''relay'', ''Relayed (through TURN server)'')]"

text \<open>
  \<^verbatim>\<open>getCandidateTypeDescription\<close>: \<^verbatim>\<open>types[type] || `Unknown type (${type})`\<close> (the names
  that every JavaScript object inherits are not candidate types and are left out).
\<close>

definition getCandidateTypeDescription :: "string \<Rightarrow> string" where
  "getCandidateTypeDescription type =
     str_or (map_of candidate_type_descriptions type) (''Unknown type ('' @ type @ '')'')"

text \<open>
  The first loop of \<^verbatim>\<open>logCandidateSummary\<close>: the map from candidate type to count, built
  over the local candidates in the order of their map.
\<close>

definition count_candidate_types :: "('k \<times> ICECandidateInfo) list \<Rightarrow> (string \<times> nat) list" where
  "count_candidate_types localCandidates =
     fold (\<lambda>(key, candidate) candidateTypes.
             let count = num_or_zero (Map_get candidateTypes (info_type candidate))
             in Map_set (info_type candidate) (count + 1) candidateTypes)
          localCandidates []"

text \<open>The line of one entry: \<^verbatim>\<open>`   (bullet) ${count}x ${type} - ${typeDesc}`\<close>.\<close>

definition summary_line :: "string \<Rightarrow> nat \<Rightarrow> string" where
  "summary_line type count =
     (let typeDesc = getCandidateTypeDescription type
      in ''   '' @ utf8_bullet @ '' '' @ js_string_of_nat count @ ''x '' @ type @ '' - ''
          @ typeDesc)"

definition logCandidateSummary :: "('k \<times> ICECandidateInfo) list \<Rightarrow> message list \<Rightarrow> message list" where
  "logCandidateSummary localCandidates msgs =
     fold (\<lambda>(type, count) m. addMessage (summary_line type count) MsgIceDebug m)
          (count_candidate_types localCandidates)
          (addMessage (utf8_bar_chart @ '' Local candidate summary:'') MsgIceDebug msgs)"


section \<open>Statistics reports\<close>

text \<open>
  One record of a statistics poll: a candidate pair, a local or a remote candidate with
  its id, or a record of another type.
\<close>

datatype stats_report =
  CandidatePairReport pair_stats
  | LocalCandidateReport string candidate_stats
  | RemoteCandidateReport string candidate_stats
  | OtherReport string

record collected_stats =
  candidatePairStats :: "pair_stats list"
  localCandidateStats :: "(string \<times> candidate_stats) list"
  remoteCandidateStats :: "(string \<times> candidate_stats) list"

fun collect_report :: "stats_report \<Rightarrow> collected_stats \<Rightarrow> collected_stats" where
  "collect_report (CandidatePairReport pair) c =
     c\<lparr> candidatePairStats := candidatePairStats c @ [pair] \<rparr>"
| "collect_report (LocalCandidateReport rid cand) c =
     c\<lparr> localCandidateStats := Map_set rid cand (localCandidateStats c) \<rparr>"
| "collect_report (RemoteCandidateReport rid cand) c =
     c\<lparr> remoteCandidateStats := Map_set rid cand (remoteCandidateStats c) \<rparr>"
| "collect_report (OtherReport ty) c = c"

definition collect_stats :: "stats_report list \<Rightarrow> collected_stats" where
  "collect_stats stats =
     fold collect_report stats
       \<lparr> candidatePairStats = [], localCandidateStats = [], remoteCandidateStats = [] \<rparr>"

text \<open>\<^verbatim>\<open>`${c.candidateType} ${c.address}:${c.port} (${c.protocol})`\<close>\<close>

definition candidate_info :: "candidate_stats \<Rightarrow> string" where
  "candidate_info c =
     candidateType c @ '' '' @ js_template (address c) @ '':'' @ js_template_nat (port c)
     @ '' ('' @ js_template (protocol c) @ '')''"

definition error_string :: "js_error \<Rightarrow> string" where
  "error_string e = (case e of TypeError \<Rightarrow> ''TypeError'')"


subsection \<open>The report after a failure\<close>

text \<open>The body of the loop over the succeeded pairs in \<^verbatim>\<open>logCandidateFailures\<close>.\<close>

definition report_succeeded_pair ::
  "collected_stats \<Rightarrow> nat \<Rightarrow> pair_stats \<Rightarrow> message list \<Rightarrow> message list" where
  "report_succeeded_pair c index pair msgs =
     (case (Map_get (localCandidateStats c) (localCandidateId pair),
            Map_get (remoteCandidateStats c) (remoteCandidateId pair)) of
        (Some localCandidate, Some remoteCandidate) \<Rightarrow>
          (let localInfo = candidate_info localCandidate;
               remoteInfo = candidate_info remoteCandidate;
               nominatedTag = (if nominated pair = Some True then '' [NOMINATED]'' else [])
           in addMessage (''   '' @ utf8_check_mark @ '' '' @ localInfo @ '' ''
               @ utf8_left_right_arrow @ '' '' @ remoteInfo @ nominatedTag) MsgIceDebug msgs)
      | _ \<Rightarrow> msgs)"

text \<open>
  The body of the loop over the failed pairs. The guard comes first; the analysis is
  given the two candidates as they were looked up, and an error it raises leaves the loop.
\<close>

definition report_failed_pair ::
  "collected_stats \<Rightarrow> pair_stats \<Rightarrow> message list \<Rightarrow> js_error option \<times> message list" where
  "report_failed_pair c pair msgs =
     (let localCandidate = Map_get (localCandidateStats c) (localCandidateId pair);
          remoteCandidate = Map_get (remoteCandidateStats c) (remoteCandidateId pair)
      in
      case (localCandidate, remoteCandidate) of
        (Some l, Some r) \<Rightarrow>
          (let localInfo = candidate_info l;
               remoteInfo = candidate_info r
           in
           case analyzeConnectionFailure pair localCandidate remoteCandidate of
             Inl e \<Rightarrow> (Some e, msgs)
           | Inr failureAnalysis \<Rightarrow>
               (None,
                forEach (\<lambda>index suggestion. addMessage (''      '' @ utf8_wrench @ '' ''
                    @ suggestion) MsgIceDebug)
                  (suggestions failureAnalysis)
                  (addMessage (''      '' @ utf8_bar_chart @ '' ''
                      @ details failureAnalysis) MsgIceDebug
                    (addMessage (''      '' @ utf8_light_bulb @ '' ''
                        @ reason failureAnalysis) MsgIceDebug
                      (addMessage (''   '' @ utf8_cross_mark @ '' '' @ localInfo @ '' ''
                          @ utf8_left_right_arrow @ '' '' @ remoteInfo) MsgIceDebug msgs)))))
      | _ \<Rightarrow> (None, msgs))"

text \<open>"Show other states", and the line for a poll without candidate pairs.\<close>

definition report_other_states :: "pair_stats list \<Rightarrow> message list \<Rightarrow> message list" where
  "report_other_states pairs msgs =
     (let inProgressPairs = filter (\<lambda>pair. state pair = ''in-progress'') pairs;
          waitingPairs = filter (\<lambda>pair. state pair = ''waiting'') pairs;
          msgs1 = (if length inProgressPairs > 0 then
                     addMessage (utf8_circle_arrows @ '' ''
                         @ js_string_of_nat (length inProgressPairs)
                         @ '' connection(s) still testing...'') MsgIceDebug msgs
                   else msgs);
          msgs2 = (if length waitingPairs > 0 then
                     addMessage (utf8_hourglass @ '' '' @ js_string_of_nat (length waitingPairs)
                         @ '' connection(s) waiting to be tested'') MsgIceDebug msgs1
                   else msgs1)
      in
      if length pairs = 0 then
        addMessage (''   No candidate pairs found - connection may not have started properly'') MsgIceDebug msgs2
      else msgs2)"

definition failure_report_heading :: string where
  "failure_report_heading = utf8_magnifying_glass @ '' Detailed connectivity check results:''"

definition succeeded_heading :: "nat \<Rightarrow> string" where
  "succeeded_heading n = utf8_check_mark @ '' '' @ js_string_of_nat n
      @ '' successful connection(s):''"

definition failed_heading :: "nat \<Rightarrow> string" where
  "failed_heading n = utf8_cross_mark @ '' '' @ js_string_of_nat n @ '' failed connection(s):''"

text \<open>
  The \<^verbatim>\<open>try\<close> block of \<^verbatim>\<open>logCandidateFailures\<close>, given the statistics the engine
  returned (\<^verbatim>\<open>getStats\<close> is the engine's; without a peer connection the function returns
  at once). The result is the error raised, if any, and the messages at that moment.
\<close>

definition logCandidateFailures_try ::
  "stats_report list \<Rightarrow> message list \<Rightarrow> js_error option \<times> message list" where
  "logCandidateFailures_try stats msgs =
     (let c = collect_stats stats;
          msgs1 = addMessage failure_report_heading MsgIceDebug msgs;
          succeededPairs = filter (\<lambda>pair. state pair = ''succeeded'') (candidatePairStats c);
          failedPairs = filter (\<lambda>pair. state pair = ''failed'') (candidatePairStats c);
          msgs2 = (if length succeededPairs > 0 then
                     forEach (report_succeeded_pair c) succeededPairs
                       (addMessage (succeeded_heading (length succeededPairs)) MsgIceDebug msgs1)
                   else msgs1);
          (err, msgs3) = (if length failedPairs > 0 then
                            forEach_try (report_failed_pair c) failedPairs
                              (addMessage (failed_heading (length failedPairs)) MsgIceDebug msgs2)
                          else (None, msgs2))
      in
      case err of
        Some e \<Rightarrow> (Some e, msgs3)
      | None \<Rightarrow> (None, report_other_states (candidatePairStats c) msgs3))"

text \<open>\<^verbatim>\<open>logCandidateFailures\<close>: the \<^verbatim>\<open>try\<close> block, and the message of the \<^verbatim>\<open>catch\<close>.\<close>

definition logCandidateFailures :: "stats_report list \<Rightarrow> message list \<Rightarrow> message list" where
  "logCandidateFailures stats msgs =
     (case logCandidateFailures_try stats msgs of
        (Some e, msgs') \<Rightarrow>
          addMessage (''Error getting connection stats: '' @ error_string e) MsgIceDebug msgs'
      | (None, msgs') \<Rightarrow> msgs')"


subsection \<open>The report after a success\<close>

text \<open>\<^verbatim>\<open>pair.priority || 'N/A'\<close> inside a template literal.\<close>

definition priority_or_na :: "nat option \<Rightarrow> string" where
  "priority_or_na p = (case p of None \<Rightarrow> ''N/A'' | Some n \<Rightarrow> if n = 0 then ''N/A'' else js_string_of_nat n)"

text \<open>
  \<^verbatim>\<open>(pair.totalRoundTripTime / pair.requestsSent * 1000).toFixed(2)\<close>, under the guard
  \<^verbatim>\<open>pair.totalRoundTripTime && pair.requestsSent\<close>: \<open>None\<close> when the guard fails.
\<close>

definition average_rtt :: "pair_stats \<Rightarrow> string option" where
  "average_rtt pair =
     (case (totalRoundTripTime pair, requestsSent pair) of
        (Some totalRtt, Some sent) \<Rightarrow>
          if totalRtt \<noteq> 0 \<and> sent \<noteq> 0 then Some (js_toFixed2 (totalRtt / of_nat sent * 1000))
          else None
      | _ \<Rightarrow> None)"

definition report_primary_pair ::
  "collected_stats \<Rightarrow> nat \<Rightarrow> pair_stats \<Rightarrow> message list \<Rightarrow> message list" where
  "report_primary_pair c index pair msgs =
     (case (Map_get (localCandidateStats c) (localCandidateId pair),
            Map_get (remoteCandidateStats c) (remoteCandidateId pair)) of
        (Some localCandidate, Some remoteCandidate) \<Rightarrow>
          (let localType = getCandidateTypeDescription (candidateType localCandidate);
               remoteType = getCandidateTypeDescription (candidateType remoteCandidate);
               m1 = addMessage (utf8_crown @ '' PRIMARY #'' @ js_string_of_nat (index + 1) @ '': ''
                   @ toUpperCase (candidateType localCandidate) @ '' '' @ utf8_left_right_arrow
                   @ '' '' @ toUpperCase (candidateType remoteCandidate)
                   @ '' [NOMINATED - ACTIVE PATH]'') MsgIceDebug msgs;
               m2 = addMessage (''   Local: '' @ js_template (address localCandidate) @ '':''
                   @ js_template_nat (port localCandidate) @ '' (''
                   @ js_template (protocol localCandidate) @ '') - '' @ localType) MsgIceDebug m1;
               m3 = addMessage (''   Remote: '' @ js_template (address remoteCandidate) @ '':''
                   @ js_template_nat (port remoteCandidate) @ '' (''
                   @ js_template (protocol remoteCandidate) @ '') - '' @ remoteType) MsgIceDebug m2;
               m4 = addMessage (''   Priority: '' @ priority_or_na (priority pair)
                   @ '' (HIGHEST PRIORITY - IN USE)'') MsgIceDebug m3;
               m5 = (case average_rtt pair of
                       Some avgRtt \<Rightarrow> addMessage (''   Average RTT: '' @ avgRtt
                           @ ''ms (ACTIVE CONNECTION)'') MsgIceDebug m4
                     | None \<Rightarrow> m4);
               m6 = (case currentRoundTripTime pair of
                       Some current \<Rightarrow>
                         if current \<noteq> 0 then
                           (let currentRtt = js_toFixed2 (current * 1000)
                            in addMessage (''   Current RTT: '' @ currentRtt
                                @ ''ms (LIVE DATA)'') MsgIceDebug m5)
                         else m5
                     | None \<Rightarrow> m5);
               m7 = (case availableOutgoingBitrate pair of
                       Some bitrate \<Rightarrow>
                         if bitrate \<noteq> 0 then
                           (let bandwidth = js_string_of_int (js_round (bitrate / 1000))
                            in addMessage (''   Available bandwidth: ~'' @ bandwidth
                                @ '' kbps (CURRENT CAPACITY)'') MsgIceDebug m6)
                         else m6
                     | None \<Rightarrow> m6)
           in addMessage (''   '' @ utf8_high_voltage
               @ '' This is the path your data is actually using!'') MsgIceDebug m7)
      | _ \<Rightarrow> msgs)"

definition report_backup_pair ::
  "collected_stats \<Rightarrow> nat \<Rightarrow> pair_stats \<Rightarrow> message list \<Rightarrow> message list" where
  "report_backup_pair c index pair msgs =
     (case (Map_get (localCandidateStats c) (localCandidateId pair),
            Map_get (remoteCandidateStats c) (remoteCandidateId pair)) of
        (Some localCandidate, Some remoteCandidate) \<Rightarrow>
          (let localType = getCandidateTypeDescription (candidateType localCandidate);
               remoteType = getCandidateTypeDescription (candidateType remoteCandidate);
               m1 = addMessage (utf8_circle_arrows @ '' BACKUP #'' @ js_string_of_nat (index + 1)
                   @ '': '' @ toUpperCase (candidateType localCandidate) @ '' ''
                   @ utf8_left_right_arrow @ '' '' @ toUpperCase (candidateType remoteCandidate)
                   @ '' [STANDBY PATH]'') MsgIceDebug msgs;
               m2 = addMessage (''   Local: '' @ js_template (address localCandidate) @ '':''
                   @ js_template_nat (port localCandidate) @ '' (''
                   @ js_template (protocol localCandidate) @ '') - '' @ localType) MsgIceDebug m1;
               m3 = addMessage (''   Remote: '' @ js_template (address remoteCandidate) @ '':''
                   @ js_template_nat (port remoteCandidate) @ '' (''
                   @ js_template (protocol remoteCandidate) @ '') - '' @ remoteType) MsgIceDebug m2;
               m4 = addMessage (''   Priority: '' @ priority_or_na (priority pair)
                   @ '' (READY IF NEEDED)'') MsgIceDebug m3;
               m5 = (case average_rtt pair of
                       Some avgRtt \<Rightarrow> addMessage (''   Average RTT: '' @ avgRtt
                           @ ''ms (BACKUP PERFORMANCE)'') MsgIceDebug m4
                     | None \<Rightarrow> m4)
           in addMessage (''   '' @ utf8_sleeping_symbol
               @ '' Ready to take over if primary path fails'') MsgIceDebug m5)
      | _ \<Rightarrow> msgs)"

text \<open>The loop of the fallback branch ("nomination pending").\<close>

definition report_pending_pair :: "nat \<Rightarrow> pair_stats \<Rightarrow> message list \<Rightarrow> message list" where
  "report_pending_pair index pair msgs =
     (let m1 = addMessage (''   '' @ utf8_hourglass @ '' Successful pair #''
         @ js_string_of_nat (index + 1) @ '' with priority '' @ js_template_nat (priority pair)
         @ '' (AWAITING NOMINATION)'') MsgIceDebug msgs
      in case average_rtt pair of
           Some avgRtt \<Rightarrow> addMessage (''   Round-trip time: '' @ avgRtt
               @ ''ms'') MsgIceDebug m1
         | None \<Rightarrow> m1)"

definition success_report_heading :: string where
  "success_report_heading = utf8_trophy @ '' SUCCESSFUL CONNECTION DETAILS:''"

text \<open>
  \<^verbatim>\<open>logSuccessfulConnection\<close>, given the statistics the engine returned. No operation of
  its \<^verbatim>\<open>try\<close> block raises on records of the types above.
\<close>

definition logSuccessfulConnection :: "stats_report list \<Rightarrow> message list \<Rightarrow> message list" where
  "logSuccessfulConnection stats msgs =
     (let c = collect_stats stats;
          nominatedPairs = filter (\<lambda>pair. state pair = ''succeeded'' \<and> nominated pair = Some True)
                             (candidatePairStats c);
          otherSuccessfulPairs = filter (\<lambda>pair. state pair = ''succeeded'' \<and> nominated pair \<noteq> Some True)
                                   (candidatePairStats c)
      in
      if length nominatedPairs > 0 \<or> length otherSuccessfulPairs > 0 then
        forEach (report_backup_pair c) otherSuccessfulPairs
          (forEach (report_primary_pair c) nominatedPairs
            (addMessage success_report_heading MsgIceDebug msgs))
      else
        (let anySuccessful = filter (\<lambda>pair. state pair = ''succeeded'') (candidatePairStats c)
         in
         if length anySuccessful > 0 then
           forEach report_pending_pair anySuccessful
             (addMessage (utf8_party_popper
                 @ '' Connection successful! (Nomination pending...)'') MsgIceDebug msgs)
         else msgs))"


section \<open>Example registries\<close>

definition sample_info :: "string \<Rightarrow> string \<Rightarrow> int \<Rightarrow> ICECandidateInfo" where
  "sample_info fnd ty prt =
     \<lparr> info_candidate = ''candidate:'' @ fnd @ '' 1 udp 2113937151 192.168.1.10 ''
                          @ js_string_of_int prt @ '' typ '' @ ty,
       info_type = ty, info_protocol = ''udp'', info_address = ''192.168.1.10'',
       info_port = prt, info_priority = 2113937151, info_foundation = ''candidate:'' @ fnd \<rparr>"

definition relay_then_hosts :: "(string option \<times> ICECandidateInfo) list" where
  "relay_then_hosts =
     [(Some ''4'', sample_info ''4'' ''relay'' 50004),
      (Some ''1'', sample_info ''1'' ''host'' 50001),
      (Some ''2'', sample_info ''2'' ''host'' 50002),
      (Some ''3'', sample_info ''3'' ''host'' 50003)]"

definition hosts_then_relay :: "(string option \<times> ICECandidateInfo) list" where
  "hosts_then_relay =
     [(Some ''1'', sample_info ''1'' ''host'' 50001),
      (Some ''2'', sample_info ''2'' ''host'' 50002),
      (Some ''3'', sample_info ''3'' ''host'' 50003),
      (Some ''4'', sample_info ''4'' ''relay'' 50004)]"


text \<open>The candidate types of a registry, in the order of the map.\<close>

definition types_in_order :: "('k \<times> ICECandidateInfo) list \<Rightarrow> string list" where
  "types_in_order localCandidates = map (\<lambda>(key, candidate). info_type candidate) localCandidates"

text \<open>The distinct elements of a list in the order of their first occurrence.\<close>

definition first_occurrences :: "'a list \<Rightarrow> 'a list" where
  "first_occurrences xs = rev (remdups (rev xs))"

text \<open>One step of the counting loop, on the candidate type alone.\<close>

definition count_step :: "string \<Rightarrow> (string \<times> nat) list \<Rightarrow> (string \<times> nat) list" where
  "count_step t m = Map_set t (num_or_zero (Map_get m t) + 1) m"


section \<open>Report order and example polls\<close>

text \<open>The messages a loop body adds for each element of a list, in list order.\<close>

definition blocks :: "(nat \<Rightarrow> 'a \<Rightarrow> message list \<Rightarrow> message list) \<Rightarrow> 'a list \<Rightarrow> message list" where
  "blocks f xs = concat (map (\<lambda>(i, x). f i x []) (enumerate 0 xs))"

text \<open>The candidate pairs of a statistics poll, in the order of the poll.\<close>

fun snapshot_pairs :: "stats_report list \<Rightarrow> pair_stats list" where
  "snapshot_pairs [] = []"
| "snapshot_pairs (CandidatePairReport pair # rs) = pair # snapshot_pairs rs"
| "snapshot_pairs (r # rs) = snapshot_pairs rs"

definition low_priority_first :: "stats_report list" where
  "low_priority_first =
     [LocalCandidateReport ''L1'' host_udp,
      RemoteCandidateReport ''R1'' relay_udp,
      RemoteCandidateReport ''R2'' srflx_tcp,
      CandidatePairReport \<lparr> localCandidateId = ''L1'', remoteCandidateId = ''R1'', state = ''succeeded'',
        nominated = Some True, priority = Some 300,
        requestsSent = Some 5, requestsReceived = Some 5, responsesSent = Some 5, responsesReceived = Some 5,
        lastPacketSentTimestamp = None, lastPacketReceivedTimestamp = None,
        totalRoundTripTime = None, currentRoundTripTime = None, availableOutgoingBitrate = None \<rparr>,
      CandidatePairReport \<lparr> localCandidateId = ''L1'', remoteCandidateId = ''R2'', state = ''succeeded'',
        nominated = Some True, priority = Some 500,
        requestsSent = Some 5, requestsReceived = Some 5, responsesSent = Some 5, responsesReceived = Some 5,
        lastPacketSentTimestamp = None, lastPacketReceivedTimestamp = None,
        totalRoundTripTime = None, currentRoundTripTime = None, availableOutgoingBitrate = None \<rparr>]"

definition backup_before_nominated :: "stats_report list" where
  "backup_before_nominated =
     [LocalCandidateReport ''L1'' host_udp,
      RemoteCandidateReport ''R1'' relay_udp,
      RemoteCandidateReport ''R2'' srflx_tcp,
      CandidatePairReport \<lparr> localCandidateId = ''L1'', remoteCandidateId = ''R1'', state = ''succeeded'',
        nominated = Some False, priority = Some 300,
        requestsSent = Some 5, requestsReceived = Some 5, responsesSent = Some 5, responsesReceived = Some 5,
        lastPacketSentTimestamp = None, lastPacketReceivedTimestamp = None,
        totalRoundTripTime = None, currentRoundTripTime = None, availableOutgoingBitrate = None \<rparr>,
      CandidatePairReport \<lparr> localCandidateId = ''L1'', remoteCandidateId = ''R2'', state = ''succeeded'',
        nominated = Some True, priority = Some 500,
        requestsSent = Some 5, requestsReceived = Some 5, responsesSent = Some 5, responsesReceived = Some 5,
        lastPacketSentTimestamp = None, lastPacketReceivedTimestamp = None,
        totalRoundTripTime = None, currentRoundTripTime = None, availableOutgoingBitrate = None \<rparr>]"

definition unresolved_pair :: pair_stats where
  "unresolved_pair = \<lparr> localCandidateId = ''L1'', remoteCandidateId = ''R9'', state = ''failed'',
     nominated = None, priority = None,
     requestsSent = None, requestsReceived = None, responsesSent = None, responsesReceived = None,
     lastPacketSentTimestamp = None, lastPacketReceivedTimestamp = None,
     totalRoundTripTime = None, currentRoundTripTime = None, availableOutgoingBitrate = None \<rparr>"

definition failed_lookup_stats :: "stats_report list" where
  "failed_lookup_stats = [LocalCandidateReport ''L1'' host_udp, CandidatePairReport unresolved_pair]"



section \<open>The session\<close>

text \<open>
  The browser's connectivity engine is a parameter of the session functions: a record of
  the operations the page calls. A peer connection is a value of type \<open>'pc\<close>; an operation
  that changes the connection returns the changed one. An operation that throws returns
  \<open>Inl\<close> with the text that \<^verbatim>\<open>error instanceof Error ? error.message : 'Unknown error'\<close>
  gives for the thrown value. \<^verbatim>\<open>getUserMedia\<close> is the outcome of the one request the page
  makes. Each function of the page is taken as one step: what the event loop may run
  between two \<^verbatim>\<open>await\<close>s of a function is a step before or after it.
\<close>

record media_track =
  track_kind :: string
  track_enabled :: bool

record IceServer =
  urls :: "string list"
  username :: "string option"
  credential :: "string option"

record ('pc, 'dc, 'desc) engine =
  getUserMedia :: "string + media_track list"
  new_RTCPeerConnection :: "IceServer list \<Rightarrow> string + 'pc"
  addTrack :: "'pc \<Rightarrow> media_track \<Rightarrow> string + 'pc"
  createDataChannel :: "'pc \<Rightarrow> string \<Rightarrow> string + 'dc \<times> 'pc"
  pc_createOffer :: "'pc \<Rightarrow> string + 'desc"
  pc_createAnswer :: "'pc \<Rightarrow> string + 'desc"
  setLocalDescription :: "'pc \<Rightarrow> 'desc \<Rightarrow> string + 'pc"
  setRemoteDescription :: "'pc \<Rightarrow> 'desc \<Rightarrow> string + 'pc"
  localDescription :: "'pc \<Rightarrow> 'desc option"
  JSON_parse :: "string \<Rightarrow> string + 'desc"
  JSON_stringify :: "'desc \<Rightarrow> string"

datatype media_permission = PermNone | PermRequesting | PermGranted | PermDenied

text \<open>
  The state of the component that the functions below read or write: React state and
  the refs. The connection indicators, the text of the message box and the settings of
  the custom server dialogue are left out.
\<close>

record ('pc, 'dc) session =
  isInitiator :: bool
  localOffer :: string
  localAnswer :: string
  remoteOffer :: string
  remoteAnswer :: string
  messages :: "message list"
  iceServers :: "IceServer list"
  usingCustomIceServers :: bool
  mediaPermissionState :: media_permission
  hasMediaStream :: bool
  peerConnection :: "'pc option"
  dataChannel :: "'dc option"
  localStream :: "media_track list option"
  localCandidates :: "(string option \<times> ICECandidateInfo) list"
  remoteCandidates :: "(string option \<times> ICECandidateInfo) list"
  candidatePairs :: "(string \<times> string \<times> string \<times> string) list"

definition log_message :: "string \<Rightarrow> message_type \<Rightarrow> ('pc, 'dc) session \<Rightarrow> ('pc, 'dc) session" where
  "log_message t ty s = s\<lparr> messages := addMessage t ty (messages s) \<rparr>"

text \<open>\<^verbatim>\<open>audioTrack.enabled = false\<close> on \<^verbatim>\<open>stream.getAudioTracks()[0]\<close>, when there is one.\<close>

fun mute_first_audio :: "media_track list \<Rightarrow> media_track list" where
  "mute_first_audio [] = []"
| "mute_first_audio (t # ts) =
     (if track_kind t = ''audio'' then t\<lparr> track_enabled := False \<rparr> # ts
      else t # mute_first_audio ts)"

definition requestMediaPermissions ::
  "('pc, 'dc, 'desc) engine \<Rightarrow> ('pc, 'dc) session \<Rightarrow> bool \<times> ('pc, 'dc) session" where
  "requestMediaPermissions eng s =
     (let s1 = log_message (utf8_microphone
         @ '' Requesting microphone permission (helps with browser compatibility)...'') MsgSystem
                 (s\<lparr> mediaPermissionState := PermRequesting \<rparr>)
      in
      case getUserMedia eng of
        Inr stream \<Rightarrow>
          (let s2 = log_message (utf8_check_mark
              @ '' Microphone permission granted (will improve connection reliability)'') MsgSystem
                      (s1\<lparr> localStream := Some stream, hasMediaStream := True,
                           mediaPermissionState := PermGranted \<rparr>)
           in
           if filter (\<lambda>t. track_kind t = ''audio'') stream \<noteq> [] then
             (True, log_message (utf8_muted_speaker
                 @ '' Audio muted (only needed for WebRTC compatibility)'') MsgSystem
                      (s2\<lparr> localStream := Some (mute_first_audio stream) \<rparr>))
           else (True, s2))
      | Inl errorMessage \<Rightarrow>
          (False,
           log_message (''Note: Data channels may still work, but connection reliability may be reduced'') MsgSystem
             (log_message (utf8_warning_sign @ utf8_variation_selector
                 @ '' Media permission denied: '' @ errorMessage) MsgError
               (s1\<lparr> mediaPermissionState := PermDenied \<rparr>))))"

text \<open>
  The loop \<^verbatim>\<open>getTracks().forEach(track => peerConnection.current.addTrack(...))\<close>: it
  stops at the first track the engine refuses, with the connection as it is then.
\<close>

fun addTracks :: "('pc, 'dc, 'desc) engine \<Rightarrow> media_track list \<Rightarrow> 'pc \<Rightarrow> string option \<times> 'pc" where
  "addTracks eng [] pc = (None, pc)"
| "addTracks eng (t # ts) pc =
     (case addTrack eng pc t of
        Inl e \<Rightarrow> (Some e, pc)
      | Inr pc' \<Rightarrow> addTracks eng ts pc')"

text \<open>
  The first part of \<^verbatim>\<open>initializeWebRTC\<close>: "Clear previous candidates" and "Request media
  permissions first". The permission is requested only when its state is \<^verbatim>\<open>'none'\<close>.
\<close>

definition clear_and_request_media ::
  "('pc, 'dc, 'desc) engine \<Rightarrow> ('pc, 'dc) session \<Rightarrow> bool \<times> ('pc, 'dc) session" where
  "clear_and_request_media eng s =
     (let s1 = s\<lparr> localCandidates := [], remoteCandidates := [], candidatePairs := [] \<rparr>
      in
      if mediaPermissionState s = PermNone then requestMediaPermissions eng s1
      else if mediaPermissionState s = PermGranted then (True, s1)
      else (False, s1))"

text \<open>
  "Add media stream tracks if available": the error of the loop if there is one, the
  connection after the loop, and the session.
\<close>

definition add_media_tracks ::
  "('pc, 'dc, 'desc) engine \<Rightarrow> bool \<Rightarrow> 'pc \<Rightarrow> ('pc, 'dc) session
     \<Rightarrow> string option \<times> 'pc \<times> ('pc, 'dc) session" where
  "add_media_tracks eng mediaGranted pc s =
     (case localStream s of
        Some stream \<Rightarrow>
          if mediaGranted then
            (case addTracks eng stream pc of
               (Some e, pc') \<Rightarrow> (Some e, pc', s\<lparr> peerConnection := Some pc' \<rparr>)
             | (None, pc') \<Rightarrow>
                 (None, pc',
                  log_message (utf8_musical_note
                      @ '' Added media tracks to connection (improves browser compatibility)'') MsgIceDebug
                    (s\<lparr> peerConnection := Some pc' \<rparr>)))
          else (None, pc, s)
      | None \<Rightarrow> (None, pc, s))"

text \<open>
  The end of \<^verbatim>\<open>initializeWebRTC\<close>: \<^verbatim>\<open>setIsInitiator(asInitiator)\<close>, and the data channel
  that the initiator creates.
\<close>

definition choose_role ::
  "('pc, 'dc, 'desc) engine \<Rightarrow> bool \<Rightarrow> 'pc \<Rightarrow> ('pc, 'dc) session \<Rightarrow> ('pc, 'dc) session" where
  "choose_role eng asInitiator pc s =
     (let s1 = s\<lparr> isInitiator := asInitiator \<rparr> in
      if asInitiator then
        (case createDataChannel eng pc ''messages'' of
           Inl errorMessage \<Rightarrow>
             log_message (''Error initializing WebRTC: '' @ errorMessage) MsgError s1
         | Inr (dc, pc') \<Rightarrow>
             log_message ''Initialized as initiator - ready to create connection offer'' MsgSystem
               (s1\<lparr> dataChannel := Some dc, peerConnection := Some pc' \<rparr>))
      else
        log_message ''Initialized as receiver - waiting for connection offer'' MsgSystem s1)"

text \<open>
  \<^verbatim>\<open>initializeWebRTC(asInitiator)\<close>. The handlers it installs on the new connection are
  the functions \<open>onicecandidate\<close> and the reports above; installing them changes no
  field of the session. Every error inside the \<^verbatim>\<open>try\<close> block ends in the message of the
  \<^verbatim>\<open>catch\<close>, with the session as it is at that moment.
\<close>

definition initializeWebRTC ::
  "('pc, 'dc, 'desc) engine \<Rightarrow> bool \<Rightarrow> ('pc, 'dc) session \<Rightarrow> ('pc, 'dc) session" where
  "initializeWebRTC eng asInitiator s =
     (let (mediaGranted, s2) = clear_and_request_media eng s
      in
      case new_RTCPeerConnection eng (iceServers s) of
        Inl errorMessage \<Rightarrow> log_message (''Error initializing WebRTC: ''
            @ errorMessage) MsgError s2
      | Inr pc \<Rightarrow>
          (let iceServerType = (if usingCustomIceServers s then ''custom'' else ''default'');
               s3 = log_message (utf8_wrench @ '' Initialized WebRTC with ''
                   @ js_string_of_nat (length (iceServers s)) @ '' '' @ iceServerType
                   @ '' ICE servers'') MsgIceDebug
                      (s2\<lparr> peerConnection := Some pc \<rparr>);
               (err, pc4, s4) = add_media_tracks eng mediaGranted pc s3
           in
           case err of
             Some errorMessage \<Rightarrow>
               log_message (''Error initializing WebRTC: '' @ errorMessage) MsgError s4
           | None \<Rightarrow> choose_role eng asInitiator pc4 s4))"

text \<open>
  The handler \<^verbatim>\<open>onicecandidate\<close>; its argument is \<^verbatim>\<open>event.candidate\<close>, \<^verbatim>\<open>null\<close> at the
  end of gathering. The key of the map is the candidate's \<^verbatim>\<open>foundation\<close> attribute.
\<close>

definition onicecandidate :: "RTCIceCandidate option \<Rightarrow> ('pc, 'dc) session \<Rightarrow> ('pc, 'dc) session" where
  "onicecandidate event_candidate s =
     (case event_candidate of
        Some candidate \<Rightarrow>
          (case parseICECandidate candidate of
             Some candidateInfo \<Rightarrow>
               (let s1 = s\<lparr> localCandidates :=
                              Map_set (cand_foundation candidate) candidateInfo (localCandidates s) \<rparr>;
                    typeDesc = getCandidateTypeDescription (info_type candidateInfo)
                in log_message (utf8_magnifying_glass @ '' Found local candidate: ''
                    @ info_type candidateInfo @ '' ('' @ toUpperCase (info_protocol candidateInfo)
                    @ '') '' @ info_address candidateInfo @ '':''
                    @ js_string_of_int (info_port candidateInfo) @ '' - ''
                    @ typeDesc) MsgIceDebug s1)
           | None \<Rightarrow>
               log_message (''Found connection path: '' @ str_or (cand_type candidate) ''unknown'')
                 MsgSystem s)
      | None \<Rightarrow> log_message ''Finished finding connection paths'' MsgSystem s)"

text \<open>
  \<^verbatim>\<open>createOffer\<close>, up to the point where it sets the timer; the callback of the timer is
  \<open>createOffer_timeout\<close>.
\<close>

definition createOffer :: "('pc, 'dc, 'desc) engine \<Rightarrow> ('pc, 'dc) session \<Rightarrow> ('pc, 'dc) session" where
  "createOffer eng s =
     (case peerConnection s of
        None \<Rightarrow> log_message (''Error creating offer: ''
            @ ''No peer connection available'') MsgError s
      | Some pc \<Rightarrow>
          (let s1 = log_message (utf8_memo @ '' Creating connection offer...'') MsgSystem s in
           case pc_createOffer eng pc of
             Inl errorMessage \<Rightarrow> log_message (''Error creating offer: ''
                 @ errorMessage) MsgError s1
           | Inr offer \<Rightarrow>
               (let s2 = log_message (utf8_gear @ utf8_variation_selector
                   @ '' Setting up local connection details...'') MsgSystem s1 in
                case setLocalDescription eng pc offer of
                  Inl errorMessage \<Rightarrow>
                    log_message (''Error creating offer: '' @ errorMessage) MsgError s2
                | Inr pc' \<Rightarrow> s2\<lparr> peerConnection := Some pc' \<rparr>)))"

definition createOffer_timeout ::
  "('pc, 'dc, 'desc) engine \<Rightarrow> ('pc, 'dc) session \<Rightarrow> ('pc, 'dc) session" where
  "createOffer_timeout eng s =
     (case peerConnection s of
        Some pc \<Rightarrow>
          (case localDescription eng pc of
             Some d \<Rightarrow>
               log_message (utf8_check_mark
                   @ '' Offer ready! Copy this and send it to the other peer'') MsgSystem
                 (s\<lparr> localOffer := JSON_stringify eng d \<rparr>)
           | None \<Rightarrow> s)
      | None \<Rightarrow> s)"

text \<open>\<^verbatim>\<open>!text.trim()\<close>: nothing but white space.\<close>

definition blank :: "string \<Rightarrow> bool" where
  "blank str = (dropWhile is_js_space str = [])"

definition handleRemoteOffer :: "('pc, 'dc, 'desc) engine \<Rightarrow> ('pc, 'dc) session \<Rightarrow> ('pc, 'dc) session" where
  "handleRemoteOffer eng s =
     (let s0 = log_message (utf8_incoming_envelope
         @ '' Processing connection offer from peer...'') MsgSystem s in
      case peerConnection s0 of
        None \<Rightarrow>
          log_message (''Error handling remote offer: ''
              @ ''No peer connection available'') MsgError s0
      | Some pc \<Rightarrow>
          if blank (remoteOffer s) then
            log_message (''Error handling remote offer: '' @ ''No offer provided'') MsgError s0
          else
            (case JSON_parse eng (remoteOffer s) of
               Inl errorMessage \<Rightarrow>
                 log_message (''Error handling remote offer: '' @ errorMessage) MsgError s0
             | Inr offer \<Rightarrow>
                 (let s1 = log_message (utf8_gear @ utf8_variation_selector
                     @ '' Understanding peer's connection details...'') MsgSystem s0 in
                  case setRemoteDescription eng pc offer of
                    Inl errorMessage \<Rightarrow>
                      log_message (''Error handling remote offer: '' @ errorMessage) MsgError s1
                  | Inr pc1 \<Rightarrow>
                      (let s2 = log_message (utf8_memo
                          @ '' Creating response (answer)...'') MsgSystem
                                  (s1\<lparr> peerConnection := Some pc1 \<rparr>)
                       in
                       case pc_createAnswer eng pc1 of
                         Inl errorMessage \<Rightarrow>
                           log_message (''Error handling remote offer: ''
                               @ errorMessage) MsgError s2
                       | Inr answer \<Rightarrow>
                           (case setLocalDescription eng pc1 answer of
                              Inl errorMessage \<Rightarrow>
                                log_message (''Error handling remote offer: '' @ errorMessage)
                                  MsgError s2
                            | Inr pc2 \<Rightarrow> s2\<lparr> peerConnection := Some pc2 \<rparr>)))))"

definition handleRemoteOffer_timeout ::
  "('pc, 'dc, 'desc) engine \<Rightarrow> ('pc, 'dc) session \<Rightarrow> ('pc, 'dc) session" where
  "handleRemoteOffer_timeout eng s =
     (case peerConnection s of
        Some pc \<Rightarrow>
          (case localDescription eng pc of
             Some d \<Rightarrow>
               log_message (utf8_check_mark
                   @ '' Answer ready! Copy this and send it back to the initiator'') MsgSystem
                 (s\<lparr> localAnswer := JSON_stringify eng d \<rparr>)
           | None \<Rightarrow> s)
      | None \<Rightarrow> s)"

definition handleRemoteAnswer :: "('pc, 'dc, 'desc) engine \<Rightarrow> ('pc, 'dc) session \<Rightarrow> ('pc, 'dc) session" where
  "handleRemoteAnswer eng s =
     (let s0 = log_message (utf8_incoming_envelope
         @ '' Processing answer from peer...'') MsgSystem s in
      case peerConnection s0 of
        None \<Rightarrow>
          log_message (''Error handling remote answer: ''
              @ ''No peer connection available'') MsgError s0
      | Some pc \<Rightarrow>
          if blank (remoteAnswer s) then
            log_message (''Error handling remote answer: '' @ ''No answer provided'') MsgError s0
          else
            (case JSON_parse eng (remoteAnswer s) of
               Inl errorMessage \<Rightarrow>
                 log_message (''Error handling remote answer: '' @ errorMessage) MsgError s0
             | Inr answer \<Rightarrow>
                 (let s1 = log_message (utf8_gear @ utf8_variation_selector
                     @ '' Applying peer's response...'') MsgSystem s0 in
                  case setRemoteDescription eng pc answer of
                    Inl errorMessage \<Rightarrow>
                      log_message (''Error handling remote answer: '' @ errorMessage) MsgError s1
                  | Inr pc1 \<Rightarrow>
                      log_message (utf8_check_mark
                          @ '' Handshake complete! Connection should establish now...'') MsgSystem
                        (s1\<lparr> peerConnection := Some pc1 \<rparr>))))"


subsection \<open>Sequences of events\<close>

text \<open>
  What can happen to a session between its initialisation and its reset: the engine
  reports a candidate (or the end of gathering), the user types into one of the two text
  boxes or presses one of the three signalling buttons, or one of the two timers fires.
\<close>

datatype session_event =
  IceCandidate "RTCIceCandidate option"
  | CreateOffer
  | CreateOfferTimeout
  | TypeRemoteOffer string
  | HandleRemoteOffer
  | HandleRemoteOfferTimeout
  | TypeRemoteAnswer string
  | HandleRemoteAnswer

fun step :: "('pc, 'dc, 'desc) engine \<Rightarrow> session_event \<Rightarrow> ('pc, 'dc) session \<Rightarrow> ('pc, 'dc) session" where
  "step eng (IceCandidate c) s = onicecandidate c s"
| "step eng CreateOffer s = createOffer eng s"
| "step eng CreateOfferTimeout s = createOffer_timeout eng s"
| "step eng (TypeRemoteOffer t) s = s\<lparr> remoteOffer := t \<rparr>"
| "step eng HandleRemoteOffer s = handleRemoteOffer eng s"
| "step eng HandleRemoteOfferTimeout s = handleRemoteOffer_timeout eng s"
| "step eng (TypeRemoteAnswer t) s = s\<lparr> remoteAnswer := t \<rparr>"
| "step eng HandleRemoteAnswer s = handleRemoteAnswer eng s"

definition run :: "('pc, 'dc, 'desc) engine \<Rightarrow> session_event list \<Rightarrow> ('pc, 'dc) session \<Rightarrow> ('pc, 'dc) session" where
  "run eng evs s = fold (step eng) evs s"

text \<open>
  The insertions into the local registry that a sequence of events asks for, in the
  order of arrival: one for each candidate that \<open>parseICECandidate\<close> accepts.
\<close>

fun recorded :: "session_event list \<Rightarrow> (string option \<times> ICECandidateInfo) list" where
  "recorded [] = []"
| "recorded (IceCandidate (Some c) # evs) =
     (case parseICECandidate c of
        Some info \<Rightarrow> (cand_foundation c, info) # recorded evs
      | None \<Rightarrow> recorded evs)"
| "recorded (ev # evs) = recorded evs"

text \<open>No two insertions with the same key differ in what they insert.\<close>

definition consistent :: "('k \<times> 'v) list \<Rightarrow> bool" where
  "consistent recs = (\<forall>p \<in> set recs. \<forall>q \<in> set recs. fst p = fst q \<longrightarrow> snd p = snd q)"


subsection \<open>A sample engine and sample sessions\<close>

text \<open>
  An engine for the examples: the offer/answer state machine of a peer connection
  (\<^verbatim>\<open>stable\<close>, \<^verbatim>\<open>have-local-offer\<close>, \<^verbatim>\<open>have-remote-offer\<close>), a microphone that is
  granted, and descriptions that are a pair of a type and a body, written
  \<^verbatim>\<open>type:body\<close>.
\<close>

record sample_pc =
  signalingState :: string
  pc_localDescription :: "(string \<times> string) option"
  pc_remoteDescription :: "(string \<times> string) option"
  pc_tracks :: nat
  pc_channels :: "string list"

definition sample_setLocalDescription :: "sample_pc \<Rightarrow> string \<times> string \<Rightarrow> string + sample_pc" where
  "sample_setLocalDescription pc d =
     (if fst d = ''offer'' \<and> (signalingState pc = ''stable'' \<or> signalingState pc = ''have-local-offer'') then
        Inr (pc\<lparr> signalingState := ''have-local-offer'', pc_localDescription := Some d \<rparr>)
      else if fst d = ''answer'' \<and> signalingState pc = ''have-remote-offer'' then
        Inr (pc\<lparr> signalingState := ''stable'', pc_localDescription := Some d \<rparr>)
      else Inl ''InvalidStateError'')"

definition sample_setRemoteDescription :: "sample_pc \<Rightarrow> string \<times> string \<Rightarrow> string + sample_pc" where
  "sample_setRemoteDescription pc d =
     (if fst d = ''offer'' \<and> (signalingState pc = ''stable'' \<or> signalingState pc = ''have-remote-offer'') then
        Inr (pc\<lparr> signalingState := ''have-remote-offer'', pc_remoteDescription := Some d \<rparr>)
      else if fst d = ''answer'' \<and> signalingState pc = ''have-local-offer'' then
        Inr (pc\<lparr> signalingState := ''stable'', pc_remoteDescription := Some d \<rparr>)
      else Inl ''InvalidStateError'')"

definition sample_engine :: "(sample_pc, string, string \<times> string) engine" where
  "sample_engine =
     \<lparr> getUserMedia = Inr [\<lparr> track_kind = ''audio'', track_enabled = True \<rparr>],
       new_RTCPeerConnection = (\<lambda>servers. Inr \<lparr> signalingState = ''stable'',
          pc_localDescription = None, pc_remoteDescription = None, pc_tracks = 0, pc_channels = [] \<rparr>),
       addTrack = (\<lambda>pc t. Inr (pc\<lparr> pc_tracks := pc_tracks pc + 1 \<rparr>)),
       createDataChannel = (\<lambda>pc label. Inr (label, pc\<lparr> pc_channels := pc_channels pc
           @ [label] \<rparr>)),
       pc_createOffer = (\<lambda>pc. Inr (''offer'', ''v=0'')),
       pc_createAnswer = (\<lambda>pc. if signalingState pc = ''have-remote-offer'' then Inr (''answer'', ''v=0'')
                               else Inl ''InvalidStateError''),
       setLocalDescription = sample_setLocalDescription,
       setRemoteDescription = sample_setRemoteDescription,
       localDescription = pc_localDescription,
       JSON_parse = (\<lambda>str. case split_on CHR '':'' str of
                              [ty, sdp] \<Rightarrow> Inr (ty, sdp)
                            | _ \<Rightarrow> Inl ''Unexpected token''),
       JSON_stringify = (\<lambda>d. fst d @ '':'' @ snd d) \<rparr>"

text \<open>The component as it is mounted, with two servers loaded; nothing is initialised.\<close>

definition fresh_session :: "(sample_pc, string) session" where
  "fresh_session =
     \<lparr> isInitiator = False, localOffer = [], localAnswer = [], remoteOffer = [], remoteAnswer = [],
       messages = [],
       iceServers = [\<lparr> urls = [''stun:stun.l.google.com:19302''], username = None, credential = None \<rparr>,
                     \<lparr> urls = [''turn:turn.example.org:3478''], username = Some ''user'',
                       credential = Some ''secret'' \<rparr>],
       usingCustomIceServers = False, mediaPermissionState = PermNone, hasMediaStream = False,
       peerConnection = None, dataChannel = None, localStream = None,
       localCandidates = [], remoteCandidates = [], candidatePairs = [] \<rparr>"

text \<open>The session after "Initialize as Receiver".\<close>

definition receiver_ready :: "(sample_pc, string) session" where
  "receiver_ready = initializeWebRTC sample_engine False fresh_session"

definition host_candidate_1 :: RTCIceCandidate where
  "host_candidate_1 = \<lparr> cand_candidate = ''candidate:1 1 udp 2113937151 192.168.1.10 50001 typ host'',
     cand_type = Some ''host'', cand_foundation = Some ''1'' \<rparr>"

text \<open>The same foundation on another port (a second media section on the same interface).\<close>

definition host_candidate_1b :: RTCIceCandidate where
  "host_candidate_1b = \<lparr> cand_candidate = ''candidate:1 1 udp 2113937151 192.168.1.10 50002 typ host'',
     cand_type = Some ''host'', cand_foundation = Some ''1'' \<rparr>"

definition relay_candidate_2 :: RTCIceCandidate where
  "relay_candidate_2 = \<lparr> cand_candidate = ''candidate:2 1 udp 41885439 203.0.113.5 50003 typ relay'',
     cand_type = Some ''relay'', cand_foundation = Some ''2'' \<rparr>"

text \<open>The receiver session after one candidate was found.\<close>

definition active_session :: "(sample_pc, string) session" where
  "active_session = onicecandidate (Some host_candidate_1) receiver_ready"


subsection \<open>Further examples\<close>

definition failing_engine :: "(sample_pc, string, string \<times> string) engine" where
  "failing_engine = sample_engine
     \<lparr> new_RTCPeerConnection := (\<lambda>servers. Inl ''Failed to construct RTCPeerConnection'') \<rparr>"

definition candidates_then_offer :: "session_event list" where
  "candidates_then_offer =
     [IceCandidate (Some host_candidate_1), CreateOffer, IceCandidate (Some relay_candidate_2),
      IceCandidate None]"

definition offer_between_candidates :: "session_event list" where
  "offer_between_candidates =
     [IceCandidate (Some relay_candidate_2), IceCandidate None, IceCandidate (Some host_candidate_1),
      CreateOffer]"


section \<open>Properties of the failure analysis\<close>

lemma reason_protocol_analysis: "reason (protocol_analysis l r a) = reason a"
  by (simp add: protocol_analysis_def)

lemma reason_timing_analysis: "reason (timing_analysis pair a) = reason a"
  by (simp add: timing_analysis_def Let_def split: option.splits)

lemma reason_topology_analysis: "reason (topology_analysis l r a) = reason a"
  by (simp add: topology_analysis_def Let_def)

lemma reason_packet_pattern_analysis:
  "reason (packet_pattern_analysis pair l r a) = rule_reason (spec_decision_order (counters pair))"
  by (simp add: packet_pattern_analysis_def spec_decision_order_def counters_def Let_def)

lemma suggestions_timing_analysis: "suggestions (timing_analysis pair a) = suggestions a"
  by (simp add: timing_analysis_def Let_def split: option.splits)

lemma details_protocol_analysis: "details (protocol_analysis l r a) = details a"
  by (simp add: protocol_analysis_def)

lemma details_topology_analysis: "details (topology_analysis l r a) = details a"
  by (simp add: topology_analysis_def Let_def)

lemma suggestions_protocol_analysis:
  "suggestions (protocol_analysis l r a) = suggestions a
      @ suggestions (protocol_analysis l r initial_analysis)"
  by (simp add: protocol_analysis_def initial_analysis_def)

lemma suggestions_topology_analysis:
  "suggestions (topology_analysis l r a) = suggestions a
      @ suggestions (topology_analysis l r initial_analysis)"
  by (simp add: topology_analysis_def initial_analysis_def Let_def)

lemma suggestions_tail:
  "suggestions (topology_analysis l r (timing_analysis pair (protocol_analysis l r a)))
     = suggestions a @ candidate_suggestions l r"
proof -
  have "suggestions (topology_analysis l r (timing_analysis pair (protocol_analysis l r a)))
      = suggestions (protocol_analysis l r a)
          @ suggestions (topology_analysis l r initial_analysis)"
    using suggestions_topology_analysis [of l r "timing_analysis pair (protocol_analysis l r a)"]
    by (simp add: suggestions_timing_analysis)
  also have "\<dots> = suggestions a @ suggestions (protocol_analysis l r initial_analysis)
      @ suggestions (topology_analysis l r initial_analysis)"
    using suggestions_protocol_analysis [of l r a] by simp
  also have "suggestions (protocol_analysis l r initial_analysis)
      @ suggestions (topology_analysis l r initial_analysis) = candidate_suggestions l r"
    unfolding candidate_suggestions_def
    using suggestions_topology_analysis [of l r "protocol_analysis l r initial_analysis"] by simp
  finally show ?thesis .
qed

text \<open>
  Claim C1. On every pair, with both candidates found, the analysis returns, and its reason
  is the one of the first rule that matches in the specification's order of the five rules.
  When no request was sent and none received (a missing counter counts as 0) the reason is
  "not selected for testing" whatever the other fields are, and the only suggestions are
  those drawn from the two candidates.
\<close>

theorem analyzeConnectionFailure_decision_order:
  "(case analyzeConnectionFailure pair (Some l) (Some r) of
      Inl e \<Rightarrow> False
    | Inr a \<Rightarrow>
        reason a = rule_reason (spec_decision_order (counters pair))
        \<and> (num_or_zero (requestsSent pair) = 0 \<and> num_or_zero (requestsReceived pair) = 0 \<longrightarrow>
             reason a = ''No communication attempted - candidate pair was not selected for testing''
             \<and> suggestions a = candidate_suggestions l r))"
proof -
  let ?a = "topology_analysis l r (timing_analysis pair (protocol_analysis l r
              (packet_pattern_analysis pair l r initial_analysis)))"
  have run: "analyzeConnectionFailure pair (Some l) (Some r) = Inr ?a"
    by (simp add: analyzeConnectionFailure_def)
  have rsn: "reason ?a = rule_reason (spec_decision_order (counters pair))"
    by (simp add: reason_topology_analysis reason_timing_analysis reason_protocol_analysis
        reason_packet_pattern_analysis)
  have first: "reason ?a = ''No communication attempted - candidate pair was not selected for testing''
      \<and> suggestions ?a = candidate_suggestions l r"
    if "num_or_zero (requestsSent pair) = 0" "num_or_zero (requestsReceived pair) = 0"
  proof -
    have "spec_decision_order (counters pair) = NotSelectedForTesting"
      using that by (simp add: spec_decision_order_def counters_def)
    moreover have "suggestions (packet_pattern_analysis pair l r initial_analysis) = []"
      using that by (simp add: packet_pattern_analysis_def initial_analysis_def)
    ultimately show ?thesis
      using rsn by (simp add: suggestions_tail)
  qed
  show ?thesis
    unfolding run sum.case using rsn first by simp
qed

theorem analyzeConnectionFailure_decision_order_witness:
  "num_or_zero (requestsSent unselected_pair) = 0 \<and> num_or_zero (requestsReceived unselected_pair) = 0
   \<and> (case analyzeConnectionFailure unselected_pair (Some host_udp) (Some relay_udp) of
        Inl e \<Rightarrow> False
      | Inr a \<Rightarrow> reason a = ''No communication attempted - candidate pair was not selected for testing'')"
proof -
  have h: "num_or_zero (requestsSent unselected_pair) = 0 \<and> num_or_zero (requestsReceived unselected_pair) = 0"
    by (simp add: unselected_pair_def num_or_zero_def)
  show ?thesis
    using analyzeConnectionFailure_decision_order [of unselected_pair host_udp relay_udp] h
    by (auto split: sum.splits)
qed

text \<open>
  Claim C2. When requests were sent and none received, the reason is "outbound packets sent
  but no response received", and the suggestions start with the hints of the first class
  that applies: a relay on either side (TURN server unreachable or credentials invalid),
  otherwise a server-reflexive candidate on either side (NAT or firewall, incorrect
  reflexive address), otherwise host on both sides (peers on different networks, firewall
  policy); the suggestions drawn from the candidates alone follow. The witness is the
  pair with 4 requests sent, none received and a local relay candidate.
\<close>

theorem analyzeConnectionFailure_no_response:
  assumes "num_or_zero (requestsSent pair) > 0" and "num_or_zero (requestsReceived pair) = 0"
  shows "(case analyzeConnectionFailure pair (Some l) (Some r) of
      Inl e \<Rightarrow> False
    | Inr a \<Rightarrow>
        reason a = ''Outbound packets sent but no response received''
        \<and> suggestions a = spec_kind_suggestions l r @ candidate_suggestions l r)"
proof -
  let ?p = "packet_pattern_analysis pair l r initial_analysis"
  have r: "reason ?p = ''Outbound packets sent but no response received''"
    using assms by (simp add: packet_pattern_analysis_def Let_def)
  have s: "suggestions ?p = spec_kind_suggestions l r"
    using assms by (simp add: packet_pattern_analysis_def Let_def spec_kind_suggestions_def initial_analysis_def)
  show ?thesis
    by (simp add: analyzeConnectionFailure_def reason_topology_analysis reason_timing_analysis
        reason_protocol_analysis suggestions_tail r s)
qed

theorem analyzeConnectionFailure_no_response_witness:
  "num_or_zero (requestsSent scenario_a_pair) > 0 \<and> num_or_zero (requestsReceived scenario_a_pair) = 0
   \<and> candidateType relay_udp = ''relay''
   \<and> (case analyzeConnectionFailure scenario_a_pair (Some relay_udp) (Some host_udp) of
        Inl e \<Rightarrow> False
      | Inr a \<Rightarrow> reason a = ''Outbound packets sent but no response received''
          \<and> ''TURN server may be unreachable or credentials invalid'' \<in> set (suggestions a))"
proof -
  have h1: "num_or_zero (requestsSent scenario_a_pair) > 0"
    by (simp add: scenario_a_pair_def num_or_zero_def)
  have h2: "num_or_zero (requestsReceived scenario_a_pair) = 0"
    by (simp add: scenario_a_pair_def num_or_zero_def)
  have k: "candidateType relay_udp = ''relay''"
    by (simp add: relay_udp_def)
  have ks: "''TURN server may be unreachable or credentials invalid'' \<in> set (spec_kind_suggestions relay_udp host_udp)"
    by (simp add: spec_kind_suggestions_def k)
  show ?thesis
    using analyzeConnectionFailure_no_response [OF h1 h2, of relay_udp host_udp] h1 h2 k ks
    by (auto split: sum.splits)
qed


text \<open>
  Claim C3 as stated fails in two ways. The difference is taken as received minus sent, so
  a pair whose last packet was sent 6000 ms after the last one was received gets no
  instability note; and a time stamp of 0, though present, is falsy and switches the
  timing analysis off.
\<close>

theorem timing_gap_counterexample:
  "lastPacketSentTimestamp sent_later_pair = Some 7000
   \<and> lastPacketReceivedTimestamp sent_later_pair = Some 1000
   \<and> analyzeConnectionFailure sent_later_pair (Some host_udp) (Some host_udp)
       = Inr \<lparr> reason = ''No communication attempted - candidate pair was not selected for testing'',
               details = ''This path was deprioritized or testing was stopped early'',
               suggestions = [''Direct peer-to-peer attempt - both peers must be on same network or have public IPs''] \<rparr>
   \<and> lastPacketSentTimestamp zero_stamp_pair = Some 0
   \<and> lastPacketReceivedTimestamp zero_stamp_pair = Some 6000
   \<and> analyzeConnectionFailure zero_stamp_pair (Some host_udp) (Some host_udp)
       = Inr \<lparr> reason = ''No communication attempted - candidate pair was not selected for testing'',
               details = ''This path was deprioritized or testing was stopped early'',
               suggestions = [''Direct peer-to-peer attempt - both peers must be on same network or have public IPs''] \<rparr>"
  by (simp add: sent_later_pair_def zero_stamp_pair_def host_udp_def analyzeConnectionFailure_def
      packet_pattern_analysis_def protocol_analysis_def timing_analysis_def topology_analysis_def
      getNetworkTopologyInsight_def initial_analysis_def num_or_zero_def truthy_num_def Let_def)

text \<open>
  Claim C3, amended. When both time stamps are present and not 0 and the last packet was
  received more than 5000 ms after the last one was sent, the details end with the
  instability note, which gives the difference rounded to whole seconds. The witness is a
  pair that received its last packet 6000 ms after it sent its last one: the note says 6s.
\<close>

theorem timing_analysis_received_after_sent:
  assumes "lastPacketSentTimestamp pair = Some sent" and "lastPacketReceivedTimestamp pair = Some received"
    and "sent \<noteq> 0" and "received \<noteq> 0" and "received - sent > 5000"
  shows "(case analyzeConnectionFailure pair (Some l) (Some r) of
      Inl e \<Rightarrow> False
    | Inr a \<Rightarrow>
        details a = details (packet_pattern_analysis pair l r initial_analysis)
                    @ '' | Large time gap (''
                        @ js_string_of_int (js_round ((received - sent) / 1000))
                    @ ''s) suggests network instability'')"
  using assms
  by (simp add: analyzeConnectionFailure_def details_topology_analysis timing_analysis_def
      truthy_num_def details_protocol_analysis)

theorem timing_analysis_received_after_sent_witness:
  "lastPacketSentTimestamp received_later_pair = Some 1000
   \<and> lastPacketReceivedTimestamp received_later_pair = Some 7000
   \<and> (1000::rat) \<noteq> 0 \<and> (7000::rat) \<noteq> 0 \<and> (7000::rat) - 1000 > 5000
   \<and> (case analyzeConnectionFailure received_later_pair (Some host_udp) (Some host_udp) of
        Inl e \<Rightarrow> False
      | Inr a \<Rightarrow> details a = ''This path was deprioritized or testing was stopped early''
                    @ '' | Large time gap (6s) suggests network instability'')"
proof -
  have h1: "lastPacketSentTimestamp received_later_pair = Some 1000"
    and h2: "lastPacketReceivedTimestamp received_later_pair = Some 7000"
    by (simp_all add: received_later_pair_def sent_later_pair_def)
  have h3: "(1000::rat) \<noteq> 0" and h4: "(7000::rat) \<noteq> 0" and h5: "(7000::rat) - 1000 > 5000"
    by simp_all
  have d: "details (packet_pattern_analysis received_later_pair host_udp host_udp initial_analysis)
      = ''This path was deprioritized or testing was stopped early''"
    by (simp add: packet_pattern_analysis_def received_later_pair_def sent_later_pair_def num_or_zero_def)
  have "js_round ((7000 - 1000) / 1000) = 6"
    by (simp add: js_round_def floor_eq_iff)
  then have n: "js_string_of_int (js_round ((7000 - 1000) / 1000)) = ''6''"
    by (simp add: js_string_of_int_def js_string_of_nat.simps)
  show ?thesis
    using timing_analysis_received_after_sent [OF h1 h2 h3 h4 h5, of host_udp host_udp] h1 h2 d n
    by (auto split: sum.splits)
qed

section \<open>Properties of the candidate parser\<close>

text \<open>
  Claim C10. \<^verbatim>\<open>parseICECandidate\<close> returns on every candidate: \<^verbatim>\<open>null\<close> when the
  descriptor has fewer than 6 parts between single spaces, and a record otherwise, whose
  port (part 5) and priority (part 3) are 0 when \<^verbatim>\<open>parseInt\<close> finds no number in them.
\<close>

theorem parseICECandidate_total:
  "(length (split_on CHR '' '' (cand_candidate c)) < 6 \<longrightarrow> parseICECandidate c = None)
   \<and> (6 \<le> length (split_on CHR '' '' (cand_candidate c)) \<longrightarrow>
        (case parseICECandidate c of
           None \<Rightarrow> False
         | Some info \<Rightarrow>
             (parseInt (js_index (split_on CHR '' '' (cand_candidate c)) 5) = None \<longrightarrow> info_port info = 0)
             \<and> (parseInt (js_index (split_on CHR '' '' (cand_candidate c)) 3) = None \<longrightarrow> info_priority info = 0)))"
  by (simp add: parseICECandidate_def Let_def int_or_zero_def)

lemma split_short: "split_on CHR '' '' (cand_candidate short_candidate) = [''candidate:1'', ''1'', ''udp'']"
  by (simp add: short_candidate_def)

lemma split_garbled: "split_on CHR '' '' (cand_candidate garbled_candidate)
    = [''candidate:7'', ''1'', ''UDP'', ''high'', ''10.0.0.2'', ''port'', ''typ'', ''host'']"
  by (simp add: garbled_candidate_def)

lemma parseInt_high: "parseInt (Some ''high'') = None"
  by (simp add: parseInt_def is_js_space_def is_digit_of_def digit_val_def Let_def)

lemma parseInt_port: "parseInt (Some ''port'') = None"
  by (simp add: parseInt_def is_js_space_def is_digit_of_def digit_val_def Let_def)

theorem parseICECandidate_total_witness:
  "length (split_on CHR '' '' (cand_candidate short_candidate)) < 6
   \<and> parseICECandidate short_candidate = None
   \<and> 6 \<le> length (split_on CHR '' '' (cand_candidate garbled_candidate))
   \<and> parseInt (js_index (split_on CHR '' '' (cand_candidate garbled_candidate)) 5) = None
   \<and> parseInt (js_index (split_on CHR '' '' (cand_candidate garbled_candidate)) 3) = None
   \<and> (case parseICECandidate garbled_candidate of
         None \<Rightarrow> False
       | Some info \<Rightarrow> info_port info = 0 \<and> info_priority info = 0)"
  using parseICECandidate_total [of short_candidate] parseICECandidate_total [of garbled_candidate]
  by (auto simp add: split_short split_garbled js_index_def parseInt_high parseInt_port split: option.splits)

section \<open>Properties of the candidate summary\<close>

lemma Map_get_tabulate:
  "Map_get (map (\<lambda>u. (u, f u)) us) t = (if t \<in> set us then Some (f t) else None)"
  by (induction us) (auto simp: Map_get_def)

lemma Map_set_tabulate_new:
  "t \<notin> set us \<Longrightarrow> Map_set t v (map (\<lambda>u. (u, f u)) us) = map (\<lambda>u. (u, f u)) us
      @ [(t, v)]"
  by (induction us) auto

lemma Map_set_tabulate_old:
  "t \<in> set us \<Longrightarrow> distinct us \<Longrightarrow>
   Map_set t v (map (\<lambda>u. (u, f u)) us) = map (\<lambda>u. (u, if u = t then v else f u)) us"
  by (induction us) auto

lemma first_occurrences_snoc:
  "first_occurrences (xs
      @ [x]) = (if x \<in> set xs then first_occurrences xs else first_occurrences xs @ [x])"
  by (simp add: first_occurrences_def)

lemma distinct_first_occurrences: "distinct (first_occurrences xs)"
  by (simp add: first_occurrences_def)

lemma set_first_occurrences: "set (first_occurrences xs) = set xs"
  by (simp add: first_occurrences_def)

lemma fold_count_step:
  "fold count_step ts [] = map (\<lambda>t. (t, count_list ts t)) (first_occurrences ts)"
proof (induction ts rule: rev_induct)
  case Nil
  show ?case by (simp add: first_occurrences_def)
next
  case (snoc t ts)
  let ?m = "map (\<lambda>u. (u, count_list ts u)) (first_occurrences ts)"
  have step: "fold count_step (ts @ [t]) [] = count_step t ?m"
    using snoc.IH by simp
  show ?case
  proof (cases "t \<in> set ts")
    case True
    then have "count_step t ?m = map (\<lambda>u. (u, if u = t then count_list ts t + 1 else count_list ts u))
        (first_occurrences ts)"
      by (simp add: count_step_def Map_get_tabulate set_first_occurrences num_or_zero_def
          Map_set_tabulate_old distinct_first_occurrences)
    also have "\<dots> = map (\<lambda>u. (u, count_list (ts @ [t]) u)) (first_occurrences (ts
        @ [t]))"
      using True by (simp add: first_occurrences_snoc)
    finally show ?thesis using step by simp
  next
    case False
    then have "count_step t ?m = ?m @ [(t, 1)]"
      by (simp add: count_step_def Map_get_tabulate set_first_occurrences num_or_zero_def
          Map_set_tabulate_new)
    also have "\<dots> = map (\<lambda>u. (u, count_list (ts @ [t]) u)) (first_occurrences (ts
        @ [t]))"
      using False by (auto simp add: first_occurrences_snoc set_first_occurrences)
    finally show ?thesis using step by simp
  qed
qed

lemma fold_count_types:
  "fold (\<lambda>(key, candidate) candidateTypes.
             let count = num_or_zero (Map_get candidateTypes (info_type candidate))
             in Map_set (info_type candidate) (count + 1) candidateTypes) cands m
   = fold count_step (types_in_order cands) m"
  by (induction cands arbitrary: m) (auto simp: types_in_order_def count_step_def)

lemma count_candidate_types_fold:
  "count_candidate_types cands = fold count_step (types_in_order cands) []"
  by (simp only: count_candidate_types_def fold_count_types)

lemma fold_addMessage:
  "fold (\<lambda>(type, count) m. addMessage (summary_line type count) MsgIceDebug m) entries msgs
   = msgs
       @ map (\<lambda>(type, count). \<lparr> msg_text = summary_line type count, msg_type = MsgIceDebug \<rparr>) entries"
  by (induction entries arbitrary: msgs) (auto simp: addMessage_def)

text \<open>
  Claim C6, amended. The summary lists each candidate type once, in the order in which
  the types first occur in the registry (the insertion order of its map), each with the
  number of candidates of that type; the report is a header line followed by one line per
  entry in that order. Over three host candidates followed by one relay candidate the
  entries are (host, 3), (relay, 1).
\<close>

theorem logCandidateSummary_first_occurrence_order:
  "count_candidate_types registry
     = map (\<lambda>t. (t, count_list (types_in_order registry) t))
         (first_occurrences (types_in_order registry))
   \<and> logCandidateSummary registry msgs
     = msgs @ \<lparr> msg_text = utf8_bar_chart
         @ '' Local candidate summary:'', msg_type = MsgIceDebug \<rparr>
       # map (\<lambda>(type, count). \<lparr> msg_text = summary_line type count, msg_type = MsgIceDebug \<rparr>)
           (count_candidate_types registry)
   \<and> count_candidate_types hosts_then_relay = [(''host'', 3), (''relay'', 1)]"
proof (intro conjI)
  show "count_candidate_types registry
     = map (\<lambda>t. (t, count_list (types_in_order registry) t))
         (first_occurrences (types_in_order registry))"
    by (simp only: count_candidate_types_fold fold_count_step)
  show "logCandidateSummary registry msgs
     = msgs @ \<lparr> msg_text = utf8_bar_chart
         @ '' Local candidate summary:'', msg_type = MsgIceDebug \<rparr>
       # map (\<lambda>(type, count). \<lparr> msg_text = summary_line type count, msg_type = MsgIceDebug \<rparr>)
           (count_candidate_types registry)"
    unfolding logCandidateSummary_def fold_addMessage by (simp add: addMessage_def)
  show "count_candidate_types hosts_then_relay = [(''host'', 3), (''relay'', 1)]"
    by (simp add: count_candidate_types_def hosts_then_relay_def sample_info_def Map_get_def num_or_zero_def)
qed

text \<open>
  Claim C6 as stated fails: no sort by count is applied. A registry whose relay candidate
  was discovered before its three host candidates is summarised as (relay, 1), (host, 3).
\<close>

theorem logCandidateSummary_counterexample:
  "count_candidate_types relay_then_hosts = [(''relay'', 1), (''host'', 3)]
   \<and> map msg_text (logCandidateSummary relay_then_hosts [])
     = [utf8_bar_chart @ '' Local candidate summary:'',
        ''   '' @ utf8_bullet @ '' 1x relay - Relayed (through TURN server)'',
        ''   '' @ utf8_bullet @ '' 3x host - Direct connection (same network)'']"
  by (simp add: count_candidate_types_def relay_then_hosts_def sample_info_def Map_get_def num_or_zero_def
      logCandidateSummary_def addMessage_def summary_line_def getCandidateTypeDescription_def
      candidate_type_descriptions_def str_or_def js_string_of_nat.simps)

section \<open>Properties of the statistics reports\<close>

lemma addMessage_append: "addMessage t ty msgs = msgs @ addMessage t ty []"
  by (simp add: addMessage_def)

lemma forEach_from_append:
  assumes "\<And>i x m. f i x m = m @ f i x []"
  shows "forEach_from i f xs msgs = msgs
      @ concat (map (\<lambda>(j, x). f j x []) (enumerate i xs))"
proof (induction xs arbitrary: i msgs)
  case Nil
  show ?case by simp
next
  case (Cons x xs)
  have "forEach_from i f (x # xs) msgs = forEach_from (Suc i) f xs (f i x msgs)" by simp
  also have "\<dots> = f i x msgs @ concat (map (\<lambda>(j, x). f j x []) (enumerate (Suc i) xs))"
    by (rule Cons.IH)
  also have "f i x msgs = msgs @ f i x []" by (rule assms)
  finally show ?case by simp
qed

lemma forEach_blocks:
  assumes "\<And>i x m. f i x m = m @ f i x []"
  shows "forEach f xs msgs = msgs @ blocks f xs"
  unfolding forEach_def blocks_def by (rule forEach_from_append) (rule assms)

lemma report_succeeded_pair_append:
  "report_succeeded_pair c i pair msgs = msgs @ report_succeeded_pair c i pair []"
  by (simp add: report_succeeded_pair_def addMessage_def Let_def split: option.splits)

lemma optional_message:
  "(case x of Some v \<Rightarrow> addMessage (t v) ty m | None \<Rightarrow> m)
     = m
         @ (case x of Some v \<Rightarrow> [\<lparr> msg_text = t v, msg_type = ty \<rparr>] | None \<Rightarrow> [])"
  by (cases x) (simp_all add: addMessage_def)

lemma optional_truthy_message:
  "(case x of Some v \<Rightarrow> if P v then addMessage (t v) ty m else m | None \<Rightarrow> m)
     = m
         @ (case x of Some v \<Rightarrow> if P v then [\<lparr> msg_text = t v, msg_type = ty \<rparr>] else [] | None \<Rightarrow> [])"
  by (cases x) (simp_all add: addMessage_def)

lemma report_primary_pair_append:
  "report_primary_pair c i pair msgs = msgs @ report_primary_pair c i pair []"
proof (cases "Map_get (localCandidateStats c) (localCandidateId pair)")
  case None
  then show ?thesis by (simp add: report_primary_pair_def)
next
  case l: (Some l)
  show ?thesis
  proof (cases "Map_get (remoteCandidateStats c) (remoteCandidateId pair)")
    case None
    then show ?thesis by (simp add: report_primary_pair_def l)
  next
    case r: (Some r)
    show ?thesis
      unfolding report_primary_pair_def l r Let_def
      by (simp add: optional_message optional_truthy_message addMessage_def del: append.simps(2))
  qed
qed

lemma report_backup_pair_append:
  "report_backup_pair c i pair msgs = msgs @ report_backup_pair c i pair []"
proof (cases "Map_get (localCandidateStats c) (localCandidateId pair)")
  case None
  then show ?thesis by (simp add: report_backup_pair_def)
next
  case l: (Some l)
  show ?thesis
  proof (cases "Map_get (remoteCandidateStats c) (remoteCandidateId pair)")
    case None
    then show ?thesis by (simp add: report_backup_pair_def l)
  next
    case r: (Some r)
    show ?thesis
      unfolding report_backup_pair_def l r Let_def
      by (simp add: optional_message addMessage_def del: append.simps(2))
  qed
qed

lemma forEach_from_addMessage:
  "forEach_from i (\<lambda>index x. addMessage (g x) ty) xs msgs
     = msgs @ map (\<lambda>x. \<lparr> msg_text = g x, msg_type = ty \<rparr>) xs"
  by (induction xs arbitrary: i msgs) (simp_all add: addMessage_def)

lemma forEach_addMessage:
  "forEach (\<lambda>index x. addMessage (g x) ty) xs msgs
     = msgs @ map (\<lambda>x. \<lparr> msg_text = g x, msg_type = ty \<rparr>) xs"
  by (simp add: forEach_def forEach_from_addMessage)

lemma report_failed_pair_no_error: "fst (report_failed_pair c pair msgs) = None"
  by (simp add: report_failed_pair_def analyzeConnectionFailure_def Let_def split: option.splits)

lemma report_failed_pair_append:
  "report_failed_pair c pair msgs = (None, msgs @ snd (report_failed_pair c pair []))"
proof (cases "Map_get (localCandidateStats c) (localCandidateId pair)")
  case None
  then show ?thesis by (simp add: report_failed_pair_def)
next
  case l: (Some l)
  show ?thesis
  proof (cases "Map_get (remoteCandidateStats c) (remoteCandidateId pair)")
    case None
    then show ?thesis by (simp add: report_failed_pair_def l)
  next
    case r: (Some r)
    show ?thesis
      by (simp add: report_failed_pair_def l r analyzeConnectionFailure_def Let_def
          forEach_addMessage addMessage_def)
  qed
qed

lemma forEach_try_report_failed:
  "forEach_try (report_failed_pair c) ps msgs
     = (None, msgs @ concat (map (\<lambda>pair. snd (report_failed_pair c pair [])) ps))"
proof (induction ps arbitrary: msgs)
  case Nil
  show ?case by simp
next
  case (Cons p ps)
  show ?case
    by (subst forEach_try.simps, subst report_failed_pair_append) (simp add: Cons.IH)
qed

lemma candidatePairStats_fold:
  "candidatePairStats (fold collect_report stats c) = candidatePairStats c @ snapshot_pairs stats"
  by (induction stats arbitrary: c rule: snapshot_pairs.induct) simp_all

lemma candidatePairStats_collect: "candidatePairStats (collect_stats stats) = snapshot_pairs stats"
  by (simp add: collect_stats_def candidatePairStats_fold)

lemma report_other_states_append:
  "report_other_states pairs msgs = msgs @ report_other_states pairs []"
  by (simp add: report_other_states_def addMessage_def Let_def del: append.simps(2))

lemma logCandidateFailures_try_closed:
  "logCandidateFailures_try stats msgs =
     (let c = collect_stats stats;
          succeeded = filter (\<lambda>pair. state pair = ''succeeded'') (snapshot_pairs stats);
          failed = filter (\<lambda>pair. state pair = ''failed'') (snapshot_pairs stats)
      in (None,
          msgs @ [\<lparr> msg_text = failure_report_heading, msg_type = MsgIceDebug \<rparr>]
          @ (if succeeded = [] then []
             else \<lparr> msg_text = succeeded_heading (length succeeded), msg_type = MsgIceDebug \<rparr>
                  # blocks (report_succeeded_pair c) succeeded)
          @ (if failed = [] then []
             else \<lparr> msg_text = failed_heading (length failed), msg_type = MsgIceDebug \<rparr>
                  # concat (map (\<lambda>pair. snd (report_failed_pair c pair [])) failed))
          @ report_other_states (snapshot_pairs stats) []))"
  unfolding logCandidateFailures_try_def Let_def candidatePairStats_collect
  by (subst report_other_states_append)
     (simp add: forEach_try_report_failed forEach_blocks [OF report_succeeded_pair_append]
      addMessage_def del: append.simps(2))

lemma logSuccessfulConnection_closed:
  "logSuccessfulConnection stats msgs =
     (let c = collect_stats stats;
          primary = filter (\<lambda>pair. state pair = ''succeeded'' \<and> nominated pair = Some True)
                      (snapshot_pairs stats);
          backup = filter (\<lambda>pair. state pair = ''succeeded'' \<and> nominated pair \<noteq> Some True)
                     (snapshot_pairs stats)
      in msgs @ (if primary = [] \<and> backup = [] then []
                 else \<lparr> msg_text = success_report_heading, msg_type = MsgIceDebug \<rparr>
                      # blocks (report_primary_pair c) primary
                          @ blocks (report_backup_pair c) backup))"
proof -
  let ?ps = "snapshot_pairs stats"
  have none: "filter (\<lambda>pair. state pair = ''succeeded'') ?ps = []"
    if "filter (\<lambda>pair. state pair = ''succeeded'' \<and> nominated pair = Some True) ?ps = []"
      and "filter (\<lambda>pair. state pair = ''succeeded'' \<and> nominated pair \<noteq> Some True) ?ps = []"
    using that by (auto simp: filter_empty_conv)
  show ?thesis
    unfolding logSuccessfulConnection_def Let_def candidatePairStats_collect
    by (simp add: none forEach_blocks [OF report_primary_pair_append]
        forEach_blocks [OF report_backup_pair_append] addMessage_def del: append.simps(2))
qed

text \<open>
  Claim C7, amended. The pairs of a report are those of the statistics poll, in its
  order. The report after a failure lists all succeeded pairs, nominated or not, in that
  order, before all failed pairs, in that order. The report after a success lists the
  nominated succeeded pairs, in that order, before the succeeded pairs that are not
  nominated, in that order. No sort by priority is applied.
\<close>

theorem report_order_snapshot:
  "(let c = collect_stats stats;
        pairs = snapshot_pairs stats;
        succeeded = filter (\<lambda>pair. state pair = ''succeeded'') pairs;
        failed = filter (\<lambda>pair. state pair = ''failed'') pairs;
        primary = filter (\<lambda>pair. state pair = ''succeeded'' \<and> nominated pair = Some True) pairs;
        backup = filter (\<lambda>pair. state pair = ''succeeded'' \<and> nominated pair \<noteq> Some True) pairs
    in candidatePairStats c = pairs
       \<and> logCandidateFailures stats msgs =
           msgs @ [\<lparr> msg_text = failure_report_heading, msg_type = MsgIceDebug \<rparr>]
           @ (if succeeded = [] then []
              else \<lparr> msg_text = succeeded_heading (length succeeded), msg_type = MsgIceDebug \<rparr>
                   # blocks (report_succeeded_pair c) succeeded)
           @ (if failed = [] then []
              else \<lparr> msg_text = failed_heading (length failed), msg_type = MsgIceDebug \<rparr>
                   # concat (map (\<lambda>pair. snd (report_failed_pair c pair [])) failed))
           @ report_other_states pairs []
       \<and> logSuccessfulConnection stats msgs =
           msgs @ (if primary = [] \<and> backup = [] then []
                   else \<lparr> msg_text = success_report_heading, msg_type = MsgIceDebug \<rparr>
                        # blocks (report_primary_pair c) primary
                            @ blocks (report_backup_pair c) backup))"
proof -
  have failures: "logCandidateFailures stats msgs = snd (logCandidateFailures_try stats msgs)"
    by (simp add: logCandidateFailures_def logCandidateFailures_try_closed Let_def)
  show ?thesis
    unfolding failures logCandidateFailures_try_closed logSuccessfulConnection_closed
      candidatePairStats_collect Let_def
    by simp
qed

lemma toUpperCase_examples:
  "toUpperCase ''host'' = ''HOST''" "toUpperCase ''relay'' = ''RELAY''" "toUpperCase ''srflx'' = ''SRFLX''"
  by (simp_all add: toUpperCase_def char_of_eq_iff)

lemma js_string_of_nat_examples:
  "js_string_of_nat 1 = ''1''" "js_string_of_nat 2 = ''2''" "js_string_of_nat 300 = ''300''"
  "js_string_of_nat 500 = ''500''" "js_string_of_nat 3478 = ''3478''"
  "js_string_of_nat 50000 = ''50000''" "js_string_of_nat 61000 = ''61000''"
  "js_string_of_nat (Suc 0) = ''1''" "js_string_of_nat (Suc (Suc 0)) = ''2''"
  by (simp_all add: js_string_of_nat.simps)

lemma collect_low_priority_first:
  "collect_stats low_priority_first =
     \<lparr> candidatePairStats = snapshot_pairs low_priority_first,
       localCandidateStats = [(''L1'', host_udp)],
       remoteCandidateStats = [(''R1'', relay_udp), (''R2'', srflx_tcp)] \<rparr>"
  by (simp add: collect_stats_def low_priority_first_def)

lemma collect_backup_before_nominated:
  "collect_stats backup_before_nominated =
     \<lparr> candidatePairStats = snapshot_pairs backup_before_nominated,
       localCandidateStats = [(''L1'', host_udp)],
       remoteCandidateStats = [(''R1'', relay_udp), (''R2'', srflx_tcp)] \<rparr>"
  by (simp add: collect_stats_def backup_before_nominated_def)

lemma candidate_info_examples:
  "candidate_info host_udp = ''host 192.168.1.10:50000 (udp)''"
  "candidate_info relay_udp = ''relay 203.0.113.5:3478 (udp)''"
  "candidate_info srflx_tcp = ''srflx 198.51.100.7:61000 (tcp)''"
  by (simp_all add: candidate_info_def host_udp_def relay_udp_def srflx_tcp_def js_template_def
      js_template_nat_def js_string_of_nat_examples)

lemma type_description_examples:
  "getCandidateTypeDescription ''host'' = ''Direct connection (same network)''"
  "getCandidateTypeDescription ''relay'' = ''Relayed (through TURN server)''"
  "getCandidateTypeDescription ''srflx'' = ''Server reflexive (through NAT/firewall)''"
  by (simp_all add: getCandidateTypeDescription_def candidate_type_descriptions_def str_or_def)

text \<open>
  Claim C7 as stated fails. With two nominated succeeded pairs whose priorities are 300
  and then 500 in the poll, the report after a success lists priority 300 before 500;
  and the report after a failure lists a succeeded pair that is not nominated before a
  nominated one when the poll has them in that order.
\<close>

theorem report_order_counterexample:
  "map msg_text (logSuccessfulConnection low_priority_first [])
     = [utf8_trophy @ '' SUCCESSFUL CONNECTION DETAILS:'',
        utf8_crown @ '' PRIMARY #1: HOST '' @ utf8_left_right_arrow
            @ '' RELAY [NOMINATED - ACTIVE PATH]'',
        ''   Local: 192.168.1.10:50000 (udp) - Direct connection (same network)'',
        ''   Remote: 203.0.113.5:3478 (udp) - Relayed (through TURN server)'',
        ''   Priority: 300 (HIGHEST PRIORITY - IN USE)'',
        ''   '' @ utf8_high_voltage @ '' This is the path your data is actually using!'',
        utf8_crown @ '' PRIMARY #2: HOST '' @ utf8_left_right_arrow
            @ '' SRFLX [NOMINATED - ACTIVE PATH]'',
        ''   Local: 192.168.1.10:50000 (udp) - Direct connection (same network)'',
        ''   Remote: 198.51.100.7:61000 (tcp) - Server reflexive (through NAT/firewall)'',
        ''   Priority: 500 (HIGHEST PRIORITY - IN USE)'',
        ''   '' @ utf8_high_voltage @ '' This is the path your data is actually using!'']
   \<and> map msg_text (logCandidateFailures backup_before_nominated [])
     = [utf8_magnifying_glass @ '' Detailed connectivity check results:'',
        utf8_check_mark @ '' 2 successful connection(s):'',
        ''   '' @ utf8_check_mark @ '' host 192.168.1.10:50000 (udp) '' @ utf8_left_right_arrow
          @ '' relay 203.0.113.5:3478 (udp)'',
        ''   '' @ utf8_check_mark @ '' host 192.168.1.10:50000 (udp) '' @ utf8_left_right_arrow
          @ '' srflx 198.51.100.7:61000 (tcp) [NOMINATED]'']"
proof (intro conjI)
  show "map msg_text (logSuccessfulConnection low_priority_first [])
     = [utf8_trophy @ '' SUCCESSFUL CONNECTION DETAILS:'',
        utf8_crown @ '' PRIMARY #1: HOST '' @ utf8_left_right_arrow
            @ '' RELAY [NOMINATED - ACTIVE PATH]'',
        ''   Local: 192.168.1.10:50000 (udp) - Direct connection (same network)'',
        ''   Remote: 203.0.113.5:3478 (udp) - Relayed (through TURN server)'',
        ''   Priority: 300 (HIGHEST PRIORITY - IN USE)'',
        ''   '' @ utf8_high_voltage @ '' This is the path your data is actually using!'',
        utf8_crown @ '' PRIMARY #2: HOST '' @ utf8_left_right_arrow
            @ '' SRFLX [NOMINATED - ACTIVE PATH]'',
        ''   Local: 192.168.1.10:50000 (udp) - Direct connection (same network)'',
        ''   Remote: 198.51.100.7:61000 (tcp) - Server reflexive (through NAT/firewall)'',
        ''   Priority: 500 (HIGHEST PRIORITY - IN USE)'',
        ''   '' @ utf8_high_voltage @ '' This is the path your data is actually using!'']"
    unfolding logSuccessfulConnection_def collect_low_priority_first
    by (simp add: low_priority_first_def forEach_def report_primary_pair_def Map_get_def
        host_udp_def relay_udp_def srflx_tcp_def toUpperCase_examples type_description_examples
        js_string_of_nat_examples js_template_def js_template_nat_def priority_or_na_def
        average_rtt_def success_report_heading_def addMessage_def)
  show "map msg_text (logCandidateFailures backup_before_nominated [])
     = [utf8_magnifying_glass @ '' Detailed connectivity check results:'',
        utf8_check_mark @ '' 2 successful connection(s):'',
        ''   '' @ utf8_check_mark @ '' host 192.168.1.10:50000 (udp) '' @ utf8_left_right_arrow
          @ '' relay 203.0.113.5:3478 (udp)'',
        ''   '' @ utf8_check_mark @ '' host 192.168.1.10:50000 (udp) '' @ utf8_left_right_arrow
          @ '' srflx 198.51.100.7:61000 (tcp) [NOMINATED]'']"
    unfolding logCandidateFailures_def logCandidateFailures_try_def collect_backup_before_nominated
    by (simp add: backup_before_nominated_def forEach_def report_succeeded_pair_def Map_get_def
        candidate_info_examples js_string_of_nat_examples failure_report_heading_def
        succeeded_heading_def report_other_states_def addMessage_def)
qed

lemma packet_pattern_counters:
  "counters pair = counters pair' \<Longrightarrow>
   packet_pattern_analysis pair l r a = packet_pattern_analysis pair' l r a"
  by (simp add: packet_pattern_analysis_def counters_def)

lemma analyze_counters:
  assumes "counters pair = counters pair'"
    and "lastPacketSentTimestamp pair = lastPacketSentTimestamp pair'"
    and "lastPacketReceivedTimestamp pair = lastPacketReceivedTimestamp pair'"
  shows "analyzeConnectionFailure pair l r = analyzeConnectionFailure pair' l r"
  using assms packet_pattern_counters [OF assms(1)]
  by (simp add: analyzeConnectionFailure_def timing_analysis_def split: option.splits)

text \<open>
  Claim C8. A missing counter is analysed as the counter 0; a failed pair whose local or
  remote candidate is not in the poll adds no line and raises no error (it is left out of
  the detailed report); and neither the body of the loop over the failed pairs nor the
  whole \<^verbatim>\<open>try\<close> block of the failure report ever raises.
\<close>

theorem analyzer_tolerates_missing_fields:
  "analyzeConnectionFailure (pair\<lparr> requestsSent := None \<rparr>) l r
     = analyzeConnectionFailure (pair\<lparr> requestsSent := Some 0 \<rparr>) l r
   \<and> analyzeConnectionFailure (pair\<lparr> requestsReceived := None \<rparr>) l r
     = analyzeConnectionFailure (pair\<lparr> requestsReceived := Some 0 \<rparr>) l r
   \<and> analyzeConnectionFailure (pair\<lparr> responsesSent := None \<rparr>) l r
     = analyzeConnectionFailure (pair\<lparr> responsesSent := Some 0 \<rparr>) l r
   \<and> analyzeConnectionFailure (pair\<lparr> responsesReceived := None \<rparr>) l r
     = analyzeConnectionFailure (pair\<lparr> responsesReceived := Some 0 \<rparr>) l r
   \<and> (Map_get (localCandidateStats c) (localCandidateId pair) = None
        \<or> Map_get (remoteCandidateStats c) (remoteCandidateId pair) = None
        \<longrightarrow> report_failed_pair c pair msgs = (None, msgs))
   \<and> fst (report_failed_pair c pair msgs) = None
   \<and> fst (logCandidateFailures_try stats msgs) = None"
proof (intro conjI impI)
  show "analyzeConnectionFailure (pair\<lparr> requestsSent := None \<rparr>) l r
     = analyzeConnectionFailure (pair\<lparr> requestsSent := Some 0 \<rparr>) l r"
    by (rule analyze_counters) (simp_all add: counters_def num_or_zero_def)
  show "analyzeConnectionFailure (pair\<lparr> requestsReceived := None \<rparr>) l r
     = analyzeConnectionFailure (pair\<lparr> requestsReceived := Some 0 \<rparr>) l r"
    by (rule analyze_counters) (simp_all add: counters_def num_or_zero_def)
  show "analyzeConnectionFailure (pair\<lparr> responsesSent := None \<rparr>) l r
     = analyzeConnectionFailure (pair\<lparr> responsesSent := Some 0 \<rparr>) l r"
    by (rule analyze_counters) (simp_all add: counters_def num_or_zero_def)
  show "analyzeConnectionFailure (pair\<lparr> responsesReceived := None \<rparr>) l r
     = analyzeConnectionFailure (pair\<lparr> responsesReceived := Some 0 \<rparr>) l r"
    by (rule analyze_counters) (simp_all add: counters_def num_or_zero_def)
  show "report_failed_pair c pair msgs = (None, msgs)"
    if "Map_get (localCandidateStats c) (localCandidateId pair) = None
        \<or> Map_get (remoteCandidateStats c) (remoteCandidateId pair) = None"
    using that by (auto simp: report_failed_pair_def Let_def split: option.splits)
  show "fst (report_failed_pair c pair msgs) = None"
    by (rule report_failed_pair_no_error)
  show "fst (logCandidateFailures_try stats msgs) = None"
    by (simp add: logCandidateFailures_try_closed Let_def)
qed

lemma collect_failed_lookup:
  "collect_stats failed_lookup_stats =
     \<lparr> candidatePairStats = [unresolved_pair],
       localCandidateStats = [(''L1'', host_udp)],
       remoteCandidateStats = [] \<rparr>"
  by (simp add: collect_stats_def failed_lookup_stats_def)

theorem analyzer_tolerates_missing_fields_witness:
  "Map_get (remoteCandidateStats (collect_stats failed_lookup_stats)) (remoteCandidateId unresolved_pair) = None
   \<and> report_failed_pair (collect_stats failed_lookup_stats) unresolved_pair [] = (None, [])
   \<and> fst (logCandidateFailures_try failed_lookup_stats []) = None"
proof -
  have h: "Map_get (remoteCandidateStats (collect_stats failed_lookup_stats)) (remoteCandidateId unresolved_pair) = None"
    by (simp add: collect_failed_lookup Map_get_def)
  show ?thesis
    using analyzer_tolerates_missing_fields
      [of unresolved_pair None None "collect_stats failed_lookup_stats" "[]" failed_lookup_stats] h
    by simp
qed

text \<open>The report for that poll: the heading and the count, no line for the pair.\<close>

lemma omitted_pair_report:
  "map msg_text (logCandidateFailures failed_lookup_stats [])
     = [utf8_magnifying_glass @ '' Detailed connectivity check results:'',
        utf8_cross_mark @ '' 1 failed connection(s):'']"
  unfolding logCandidateFailures_def logCandidateFailures_try_def collect_failed_lookup
  by (simp add: unresolved_pair_def report_failed_pair_def Map_get_def
      js_string_of_nat_examples failure_report_heading_def
      failed_heading_def report_other_states_def addMessage_def)

section \<open>Properties of the session\<close>

lemma receiver_ready_eval:
  "receiver_ready = fresh_session
     \<lparr> messages :=
         [\<lparr> msg_text = utf8_microphone
             @ '' Requesting microphone permission (helps with browser compatibility)...'',
            msg_type = MsgSystem \<rparr>,
          \<lparr> msg_text = utf8_check_mark
              @ '' Microphone permission granted (will improve connection reliability)'',
            msg_type = MsgSystem \<rparr>,
          \<lparr> msg_text = utf8_muted_speaker
              @ '' Audio muted (only needed for WebRTC compatibility)'',
            msg_type = MsgSystem \<rparr>,
          \<lparr> msg_text = utf8_wrench @ '' Initialized WebRTC with 2 default ICE servers'',
            msg_type = MsgIceDebug \<rparr>,
          \<lparr> msg_text = utf8_musical_note
              @ '' Added media tracks to connection (improves browser compatibility)'',
            msg_type = MsgIceDebug \<rparr>,
          \<lparr> msg_text = ''Initialized as receiver - waiting for connection offer'', msg_type = MsgSystem \<rparr>],
       mediaPermissionState := PermGranted, hasMediaStream := True,
       peerConnection := Some \<lparr> signalingState = ''stable'', pc_localDescription = None,
         pc_remoteDescription = None, pc_tracks = 1, pc_channels = [] \<rparr>,
       localStream := Some [\<lparr> track_kind = ''audio'', track_enabled = False \<rparr>] \<rparr>"
  by (simp add: receiver_ready_def initializeWebRTC_def clear_and_request_media_def add_media_tracks_def choose_role_def
      requestMediaPermissions_def fresh_session_def
      sample_engine_def log_message_def addMessage_def js_string_of_nat.simps Let_def)

text \<open>
  Claim C4 as stated fails. In the session that "Initialize as Receiver" produces,
  \<^verbatim>\<open>createOffer\<close> reports no error: it logs its two progress messages and sets the
  offer as local description, so the signalling state of the connection goes from
  \<^verbatim>\<open>stable\<close> to \<^verbatim>\<open>have-local-offer\<close>.
\<close>

theorem createOffer_receiver_counterexample:
  "isInitiator receiver_ready = False
   \<and> peerConnection receiver_ready
       = Some \<lparr> signalingState = ''stable'', pc_localDescription = None,
                pc_remoteDescription = None, pc_tracks = 1, pc_channels = [] \<rparr>
   \<and> createOffer sample_engine receiver_ready
       = receiver_ready
           \<lparr> messages := messages receiver_ready @
               [\<lparr> msg_text = utf8_memo
                   @ '' Creating connection offer...'', msg_type = MsgSystem \<rparr>,
                \<lparr> msg_text = utf8_gear @ utf8_variation_selector
                    @ '' Setting up local connection details...'',
                   msg_type = MsgSystem \<rparr>],
             peerConnection := Some \<lparr> signalingState = ''have-local-offer'',
               pc_localDescription = Some (''offer'', ''v=0''),
               pc_remoteDescription = None, pc_tracks = 1, pc_channels = [] \<rparr> \<rparr>"
  unfolding receiver_ready_eval
  by (simp add: createOffer_def fresh_session_def sample_engine_def sample_setLocalDescription_def
      log_message_def addMessage_def)

text \<open>
  Claim C4, amended. \<^verbatim>\<open>createOffer\<close> never looks at the role, and the only call it
  refuses on its own is one in a session without a peer connection: it then adds the error
  message "No peer connection available" and changes nothing else. In every session with a
  peer connection it proceeds, whatever the role: it adds the message that it is creating
  the offer and asks the connection for one; when the connection gives an offer it adds
  the second progress message and sets the offer as local description, and when that
  succeeds the session holds the updated connection and no error is reported. An error of
  the connection itself (from \<^verbatim>\<open>createOffer\<close> or \<^verbatim>\<open>setLocalDescription\<close>) is reported as
  "Error creating offer: ..." after the progress messages made so far. Setting the role
  before or after the call gives the same session.
\<close>

theorem createOffer_no_role_check:
  "(peerConnection s = None \<longrightarrow>
      createOffer eng s
        = s\<lparr> messages := messages s @
            [\<lparr> msg_text = ''Error creating offer: No peer connection available'',
               msg_type = MsgError \<rparr>] \<rparr>)
   \<and> (peerConnection s = Some pc \<and> pc_createOffer eng pc = Inr offer
        \<and> setLocalDescription eng pc offer = Inr pc' \<longrightarrow>
      createOffer eng s
        = s\<lparr> messages := messages s @
            [\<lparr> msg_text = utf8_memo @ '' Creating connection offer...'', msg_type = MsgSystem \<rparr>,
             \<lparr> msg_text = utf8_gear @ utf8_variation_selector
                 @ '' Setting up local connection details...'', msg_type = MsgSystem \<rparr>],
              peerConnection := Some pc' \<rparr>)
   \<and> (peerConnection s = Some pc \<and> pc_createOffer eng pc = Inl e \<longrightarrow>
      createOffer eng s
        = s\<lparr> messages := messages s @
            [\<lparr> msg_text = utf8_memo @ '' Creating connection offer...'', msg_type = MsgSystem \<rparr>,
             \<lparr> msg_text = ''Error creating offer: '' @ e, msg_type = MsgError \<rparr>] \<rparr>)
   \<and> (peerConnection s = Some pc \<and> pc_createOffer eng pc = Inr offer
        \<and> setLocalDescription eng pc offer = Inl e \<longrightarrow>
      createOffer eng s
        = s\<lparr> messages := messages s @
            [\<lparr> msg_text = utf8_memo @ '' Creating connection offer...'', msg_type = MsgSystem \<rparr>,
             \<lparr> msg_text = utf8_gear @ utf8_variation_selector
                 @ '' Setting up local connection details...'', msg_type = MsgSystem \<rparr>,
             \<lparr> msg_text = ''Error creating offer: '' @ e, msg_type = MsgError \<rparr>] \<rparr>)
   \<and> createOffer eng (s\<lparr> isInitiator := b \<rparr>) = (createOffer eng s)\<lparr> isInitiator := b \<rparr>"
  by (simp add: createOffer_def log_message_def addMessage_def Let_def del: append.simps(2)
      split: option.splits sum.splits)

theorem createOffer_no_role_check_witness:
  "peerConnection fresh_session = None
   \<and> createOffer sample_engine fresh_session
       = fresh_session\<lparr> messages :=
           [\<lparr> msg_text = ''Error creating offer: No peer connection available'',
              msg_type = MsgError \<rparr>] \<rparr>
   \<and> isInitiator receiver_ready = False
   \<and> peerConnection receiver_ready
       = Some \<lparr> signalingState = ''stable'', pc_localDescription = None,
                pc_remoteDescription = None, pc_tracks = 1, pc_channels = [] \<rparr>
   \<and> createOffer sample_engine receiver_ready
       = receiver_ready
           \<lparr> messages := messages receiver_ready @
               [\<lparr> msg_text = utf8_memo @ '' Creating connection offer...'', msg_type = MsgSystem \<rparr>,
                \<lparr> msg_text = utf8_gear @ utf8_variation_selector
                    @ '' Setting up local connection details...'', msg_type = MsgSystem \<rparr>],
             peerConnection := Some \<lparr> signalingState = ''have-local-offer'',
               pc_localDescription = Some (''offer'', ''v=0''),
               pc_remoteDescription = None, pc_tracks = 1, pc_channels = [] \<rparr> \<rparr>
   \<and> createOffer (sample_engine\<lparr> pc_createOffer := (\<lambda>pc. Inl ''OperationError'') \<rparr>) receiver_ready
       = receiver_ready
           \<lparr> messages := messages receiver_ready @
               [\<lparr> msg_text = utf8_memo @ '' Creating connection offer...'', msg_type = MsgSystem \<rparr>,
                \<lparr> msg_text = ''Error creating offer: OperationError'', msg_type = MsgError \<rparr>] \<rparr>
   \<and> createOffer (sample_engine\<lparr> setLocalDescription := (\<lambda>pc d. Inl ''InvalidStateError'') \<rparr>)
         receiver_ready
       = receiver_ready
           \<lparr> messages := messages receiver_ready @
               [\<lparr> msg_text = utf8_memo @ '' Creating connection offer...'', msg_type = MsgSystem \<rparr>,
                \<lparr> msg_text = utf8_gear @ utf8_variation_selector
                    @ '' Setting up local connection details...'', msg_type = MsgSystem \<rparr>,
                \<lparr> msg_text = ''Error creating offer: InvalidStateError'', msg_type = MsgError \<rparr>] \<rparr>
   \<and> createOffer sample_engine (receiver_ready\<lparr> isInitiator := True \<rparr>)
       = (createOffer sample_engine receiver_ready)\<lparr> isInitiator := True \<rparr>"
proof -
  let ?pc0 = "\<lparr> signalingState = ''stable'', pc_localDescription = None,
                pc_remoteDescription = None, pc_tracks = 1, pc_channels = [] \<rparr>"
  let ?pc1 = "\<lparr> signalingState = ''have-local-offer'',
               pc_localDescription = Some (''offer'', ''v=0''),
               pc_remoteDescription = None, pc_tracks = 1, pc_channels = [] \<rparr>"
  have h0: "peerConnection fresh_session = None" and m0: "messages fresh_session = []"
    by (simp_all add: fresh_session_def)
  have h1: "peerConnection receiver_ready = Some ?pc0" and r1: "isInitiator receiver_ready = False"
    unfolding receiver_ready_eval by (simp_all add: fresh_session_def)
  have e1: "pc_createOffer sample_engine ?pc0 = Inr (''offer'', ''v=0'')"
    by (simp add: sample_engine_def)
  have e2: "setLocalDescription sample_engine ?pc0 (''offer'', ''v=0'') = Inr ?pc1"
    by (simp add: sample_engine_def sample_setLocalDescription_def)
  have e3: "pc_createOffer (sample_engine\<lparr> setLocalDescription := (\<lambda>pc d. Inl ''InvalidStateError'') \<rparr>) ?pc0
      = Inr (''offer'', ''v=0'')"
    by (simp add: sample_engine_def)
  show ?thesis
    using createOffer_no_role_check [of fresh_session sample_engine ?pc0 "(''offer'', ''v=0'')" ?pc1 "''x''" True]
      createOffer_no_role_check [of receiver_ready sample_engine ?pc0 "(''offer'', ''v=0'')" ?pc1 "''x''" True]
      createOffer_no_role_check [of receiver_ready
        "sample_engine\<lparr> pc_createOffer := (\<lambda>pc. Inl ''OperationError'') \<rparr>"
        ?pc0 "(''offer'', ''v=0'')" ?pc1 "''OperationError''" True]
      createOffer_no_role_check [of receiver_ready
        "sample_engine\<lparr> setLocalDescription := (\<lambda>pc d. Inl ''InvalidStateError'') \<rparr>"
        ?pc0 "(''offer'', ''v=0'')" ?pc1 "''InvalidStateError''" True]
      h0 m0 h1 r1 e1 e2 e3
    by (simp del: append.simps(2))
qed

lemma parse_host_candidate_1:
  "parseICECandidate host_candidate_1 =
     Some \<lparr> info_candidate = ''candidate:1 1 udp 2113937151 192.168.1.10 50001 typ host'',
            info_type = ''host'', info_protocol = ''udp'', info_address = ''192.168.1.10'',
            info_port = 50001, info_priority = 2113937151, info_foundation = ''candidate:1'' \<rparr>"
  by (simp add: host_candidate_1_def parseICECandidate_def js_index_def parseInt_def is_js_space_def
      is_digit_of_def digit_val_def Let_def str_or_def toLowerCase_def int_or_zero_def digits_value_def)

lemma parse_host_candidate_1b:
  "parseICECandidate host_candidate_1b =
     Some \<lparr> info_candidate = ''candidate:1 1 udp 2113937151 192.168.1.10 50002 typ host'',
            info_type = ''host'', info_protocol = ''udp'', info_address = ''192.168.1.10'',
            info_port = 50002, info_priority = 2113937151, info_foundation = ''candidate:1'' \<rparr>"
  by (simp add: host_candidate_1b_def parseICECandidate_def js_index_def parseInt_def is_js_space_def
      is_digit_of_def digit_val_def Let_def str_or_def toLowerCase_def int_or_zero_def digits_value_def)

lemma parse_relay_candidate_2:
  "parseICECandidate relay_candidate_2 =
     Some \<lparr> info_candidate = ''candidate:2 1 udp 41885439 203.0.113.5 50003 typ relay'',
            info_type = ''relay'', info_protocol = ''udp'', info_address = ''203.0.113.5'',
            info_port = 50003, info_priority = 41885439, info_foundation = ''candidate:2'' \<rparr>"
  by (simp add: relay_candidate_2_def parseICECandidate_def js_index_def parseInt_def is_js_space_def
      is_digit_of_def digit_val_def Let_def str_or_def toLowerCase_def int_or_zero_def digits_value_def)

lemma localCandidates_log_message [simp]: "localCandidates (log_message t ty s) = localCandidates s"
  by (simp add: log_message_def)

lemma remoteCandidates_log_message [simp]: "remoteCandidates (log_message t ty s) = remoteCandidates s"
  by (simp add: log_message_def)

lemma localCandidates_onicecandidate:
  "localCandidates (onicecandidate c s) =
     (case c of
        Some candidate \<Rightarrow>
          (case parseICECandidate candidate of
             Some info \<Rightarrow> Map_set (cand_foundation candidate) info (localCandidates s)
           | None \<Rightarrow> localCandidates s)
      | None \<Rightarrow> localCandidates s)"
  by (simp add: onicecandidate_def Let_def split: option.splits)

lemma onicecandidate_frame:
  "peerConnection (onicecandidate c s) = peerConnection s"
  "remoteCandidates (onicecandidate c s) = remoteCandidates s"
  "candidatePairs (onicecandidate c s) = candidatePairs s"
  "mediaPermissionState (onicecandidate c s) = mediaPermissionState s"
  "localStream (onicecandidate c s) = localStream s"
  "iceServers (onicecandidate c s) = iceServers s"
  "usingCustomIceServers (onicecandidate c s) = usingCustomIceServers s"
  "isInitiator (onicecandidate c s) = isInitiator s"
  "dataChannel (onicecandidate c s) = dataChannel s"
  by (simp_all add: onicecandidate_def log_message_def Let_def split: option.splits)

lemma cand_foundation_examples:
  "cand_foundation host_candidate_1 = Some ''1''"
  "cand_foundation host_candidate_1b = Some ''1''"
  "cand_foundation relay_candidate_2 = Some ''2''"
  by (simp_all add: host_candidate_1_def host_candidate_1b_def relay_candidate_2_def)

lemma active_session_fields:
  "peerConnection active_session
     = Some \<lparr> signalingState = ''stable'', pc_localDescription = None,
              pc_remoteDescription = None, pc_tracks = 1, pc_channels = [] \<rparr>"
  "localCandidates active_session =
     [(Some ''1'', \<lparr> info_candidate = ''candidate:1 1 udp 2113937151 192.168.1.10 50001 typ host'',
            info_type = ''host'', info_protocol = ''udp'', info_address = ''192.168.1.10'',
            info_port = 50001, info_priority = 2113937151, info_foundation = ''candidate:1'' \<rparr>)]"
  "mediaPermissionState active_session = PermGranted"
  "localStream active_session = Some [\<lparr> track_kind = ''audio'', track_enabled = False \<rparr>]"
  "iceServers active_session = iceServers fresh_session"
  "usingCustomIceServers active_session = False"
  unfolding active_session_def
  by (simp_all add: onicecandidate_frame localCandidates_onicecandidate parse_host_candidate_1
      cand_foundation_examples receiver_ready_eval fresh_session_def)

text \<open>
  Claim C5 as stated fails. Called on a session that has a peer connection and one
  recorded candidate, \<^verbatim>\<open>initializeWebRTC\<close> reports no error: it empties the registries,
  puts a newly constructed connection in the place of the old one and sets the new role.
\<close>

theorem initializeWebRTC_active_counterexample:
  "peerConnection active_session
     = Some \<lparr> signalingState = ''stable'', pc_localDescription = None,
              pc_remoteDescription = None, pc_tracks = 1, pc_channels = [] \<rparr>
   \<and> map fst (localCandidates active_session) = [Some ''1'']
   \<and> initializeWebRTC sample_engine True active_session
       = active_session
           \<lparr> isInitiator := True,
             messages := messages active_session @
               [\<lparr> msg_text = utf8_wrench
                   @ '' Initialized WebRTC with 2 default ICE servers'',
                   msg_type = MsgIceDebug \<rparr>,
                \<lparr> msg_text = utf8_musical_note
                    @ '' Added media tracks to connection (improves browser compatibility)'',
                   msg_type = MsgIceDebug \<rparr>,
                \<lparr> msg_text = ''Initialized as initiator - ready to create connection offer'',
                   msg_type = MsgSystem \<rparr>],
             peerConnection := Some \<lparr> signalingState = ''stable'', pc_localDescription = None,
               pc_remoteDescription = None, pc_tracks = 1, pc_channels = [''messages''] \<rparr>,
             dataChannel := Some ''messages'',
             localCandidates := [], remoteCandidates := [], candidatePairs := [] \<rparr>"
proof -
  have "initializeWebRTC sample_engine True active_session
       = active_session
           \<lparr> localCandidates := [], remoteCandidates := [], candidatePairs := [],
             peerConnection := Some \<lparr> signalingState = ''stable'', pc_localDescription = None,
               pc_remoteDescription = None, pc_tracks = 1, pc_channels = [''messages''] \<rparr>,
             messages := messages active_session @
               [\<lparr> msg_text = utf8_wrench
                   @ '' Initialized WebRTC with 2 default ICE servers'',
                   msg_type = MsgIceDebug \<rparr>,
                \<lparr> msg_text = utf8_musical_note
                    @ '' Added media tracks to connection (improves browser compatibility)'',
                   msg_type = MsgIceDebug \<rparr>,
                \<lparr> msg_text = ''Initialized as initiator - ready to create connection offer'',
                   msg_type = MsgSystem \<rparr>],
             isInitiator := True,
             dataChannel := Some ''messages'' \<rparr>"
    by (simp add: active_session_fields initializeWebRTC_def clear_and_request_media_def add_media_tracks_def choose_role_def
        sample_engine_def log_message_def
        addMessage_def fresh_session_def js_string_of_nat.simps Let_def)
  then show ?thesis
    by (simp add: active_session_fields)
qed

lemma requestMediaPermissions_peerConnection:
  "requestMediaPermissions eng (s\<lparr> peerConnection := p \<rparr>)
     = (fst (requestMediaPermissions eng s), (snd (requestMediaPermissions eng s))\<lparr> peerConnection := p \<rparr>)"
  by (simp add: requestMediaPermissions_def log_message_def Let_def split: sum.splits)

lemma requestMediaPermissions_frame:
  "localCandidates (snd (requestMediaPermissions eng s)) = localCandidates s"
  "remoteCandidates (snd (requestMediaPermissions eng s)) = remoteCandidates s"
  "candidatePairs (snd (requestMediaPermissions eng s)) = candidatePairs s"
  "peerConnection (snd (requestMediaPermissions eng s)) = peerConnection s"
  by (simp_all add: requestMediaPermissions_def log_message_def Let_def split: sum.splits)

lemma clear_and_request_media_frame:
  "localCandidates (snd (clear_and_request_media eng s)) = []"
  "remoteCandidates (snd (clear_and_request_media eng s)) = []"
  "candidatePairs (snd (clear_and_request_media eng s)) = []"
  "peerConnection (snd (clear_and_request_media eng s)) = peerConnection s"
  by (simp_all add: clear_and_request_media_def requestMediaPermissions_frame Let_def)

lemma clear_and_request_media_peerConnection:
  "clear_and_request_media eng (s\<lparr> peerConnection := p \<rparr>)
     = (fst (clear_and_request_media eng s), (snd (clear_and_request_media eng s))\<lparr> peerConnection := p \<rparr>)"
proof -
  have "s\<lparr> peerConnection := p, localCandidates := [], remoteCandidates := [], candidatePairs := [] \<rparr>
      = (s\<lparr> localCandidates := [], remoteCandidates := [], candidatePairs := [] \<rparr>)\<lparr> peerConnection := p \<rparr>"
    by simp
  then have "requestMediaPermissions eng
        (s\<lparr> peerConnection := p, localCandidates := [], remoteCandidates := [], candidatePairs := [] \<rparr>)
      = (fst (requestMediaPermissions eng
               (s\<lparr> localCandidates := [], remoteCandidates := [], candidatePairs := [] \<rparr>)),
         (snd (requestMediaPermissions eng
               (s\<lparr> localCandidates := [], remoteCandidates := [], candidatePairs := [] \<rparr>)))
           \<lparr> peerConnection := p \<rparr>)"
    by (simp only: requestMediaPermissions_peerConnection)
  then show ?thesis
    by (simp add: clear_and_request_media_def Let_def)
qed

lemma add_media_tracks_frame:
  "localCandidates (snd (snd (add_media_tracks eng g pc s))) = localCandidates s"
  "remoteCandidates (snd (snd (add_media_tracks eng g pc s))) = remoteCandidates s"
  "candidatePairs (snd (snd (add_media_tracks eng g pc s))) = candidatePairs s"
  by (simp_all add: add_media_tracks_def log_message_def split: option.split prod.split)

lemma choose_role_frame:
  "localCandidates (choose_role eng b pc s) = localCandidates s"
  "remoteCandidates (choose_role eng b pc s) = remoteCandidates s"
  "candidatePairs (choose_role eng b pc s) = candidatePairs s"
  by (simp_all add: choose_role_def log_message_def Let_def split: sum.split prod.split)

lemma candidatePairs_log_message [simp]: "candidatePairs (log_message t ty s) = candidatePairs s"
  by (simp add: log_message_def)

lemma initializeWebRTC_registries:
  "localCandidates (initializeWebRTC eng asInitiator s) = []
   \<and> remoteCandidates (initializeWebRTC eng asInitiator s) = []
   \<and> candidatePairs (initializeWebRTC eng asInitiator s) = []"
proof -
  obtain mediaGranted s2 where m: "clear_and_request_media eng s = (mediaGranted, s2)"
    by (cases "clear_and_request_media eng s")
  have s2: "localCandidates s2 = []" "remoteCandidates s2 = []" "candidatePairs s2 = []"
    using clear_and_request_media_frame [of eng s] by (simp_all add: m)
  show ?thesis
    by (simp add: initializeWebRTC_def m s2 split_beta Let_def add_media_tracks_frame choose_role_frame
        split: sum.split option.split)
qed

lemma initializeWebRTC_forgets_connection:
  assumes "new_RTCPeerConnection eng (iceServers s) = Inr pc"
  shows "initializeWebRTC eng asInitiator (s\<lparr> peerConnection := p \<rparr>) = initializeWebRTC eng asInitiator s"
  using assms
  by (simp add: initializeWebRTC_def clear_and_request_media_peerConnection split_beta Let_def
      cong: option.case_cong sum.case_cong)

lemma initializeWebRTC_construction_error:
  assumes "new_RTCPeerConnection eng (iceServers s) = Inl e"
  shows "initializeWebRTC eng asInitiator s
     = log_message (''Error initializing WebRTC: '' @ e) MsgError (snd (clear_and_request_media eng s))"
  using assms by (simp add: initializeWebRTC_def split_beta)

lemma initializeWebRTC_keeps_connection:
  assumes "new_RTCPeerConnection eng (iceServers s) = Inl e"
  shows "peerConnection (initializeWebRTC eng asInitiator s) = peerConnection s"
  using assms clear_and_request_media_frame(4) [of eng s]
  by (simp add: initializeWebRTC_def log_message_def split_beta)

lemma peerConnection_log_message [simp]: "peerConnection (log_message t ty s) = peerConnection s"
  by (simp add: log_message_def)

lemma add_media_tracks_peerConnection:
  "peerConnection s \<noteq> None \<Longrightarrow> peerConnection (snd (snd (add_media_tracks eng g pc s))) \<noteq> None"
  by (simp add: add_media_tracks_def split: option.split prod.split)

lemma choose_role_peerConnection:
  "peerConnection s \<noteq> None \<Longrightarrow> peerConnection (choose_role eng b pc s) \<noteq> None"
  by (simp add: choose_role_def Let_def split: sum.split prod.split)

lemma connection_after_tracks_and_role:
  "peerConnection
     (case fst (add_media_tracks eng g pc (log_message t ty (s2\<lparr> peerConnection := Some pc \<rparr>))) of
        None \<Rightarrow>
          choose_role eng b
            (fst (snd (add_media_tracks eng g pc (log_message t ty (s2\<lparr> peerConnection := Some pc \<rparr>)))))
            (snd (snd (add_media_tracks eng g pc (log_message t ty (s2\<lparr> peerConnection := Some pc \<rparr>)))))
      | Some e \<Rightarrow>
          log_message (f e) ty'
            (snd (snd (add_media_tracks eng g pc (log_message t ty (s2\<lparr> peerConnection := Some pc \<rparr>))))))
   \<noteq> None"
proof -
  let ?s3 = "log_message t ty (s2\<lparr> peerConnection := Some pc \<rparr>)"
  have "peerConnection ?s3 \<noteq> None" by simp
  then have s4: "peerConnection (snd (snd (add_media_tracks eng g pc ?s3))) \<noteq> None"
    by (rule add_media_tracks_peerConnection)
  then have "peerConnection (choose_role eng b (fst (snd (add_media_tracks eng g pc ?s3)))
      (snd (snd (add_media_tracks eng g pc ?s3)))) \<noteq> None"
    by (rule choose_role_peerConnection)
  with s4 show ?thesis
    by (cases "fst (add_media_tracks eng g pc ?s3)") simp_all
qed

lemma initializeWebRTC_installs_connection:
  assumes "new_RTCPeerConnection eng (iceServers s) = Inr pc"
  shows "peerConnection (initializeWebRTC eng asInitiator s) \<noteq> None"
  using assms
  by (simp add: initializeWebRTC_def split_beta Let_def connection_after_tracks_and_role)

text \<open>
  Claim C5, amended. \<^verbatim>\<open>initializeWebRTC\<close> has no check for an active session. In every
  state it empties the two candidate registries and the pair map; when the engine
  constructs a connection the session has a connection afterwards and the result does
  not depend on the connection the session had before, and when the engine fails to
  construct one the function adds the error message of its \<^verbatim>\<open>catch\<close> and the session keeps
  the connection it had. (The page disables the two initialise buttons while a peer connection exists.)
\<close>

theorem initializeWebRTC_replaces_session:
  "localCandidates (initializeWebRTC eng asInitiator s) = []
   \<and> remoteCandidates (initializeWebRTC eng asInitiator s) = []
   \<and> candidatePairs (initializeWebRTC eng asInitiator s) = []
   \<and> (new_RTCPeerConnection eng (iceServers s) = Inr pc \<longrightarrow>
        initializeWebRTC eng asInitiator (s\<lparr> peerConnection := p \<rparr>) = initializeWebRTC eng asInitiator s
        \<and> peerConnection (initializeWebRTC eng asInitiator s) \<noteq> None)
   \<and> (new_RTCPeerConnection eng (iceServers s) = Inl e \<longrightarrow>
        initializeWebRTC eng asInitiator s
          = log_message (''Error initializing WebRTC: '' @ e) MsgError
              (snd (clear_and_request_media eng s))
        \<and> peerConnection (initializeWebRTC eng asInitiator s) = peerConnection s)"
  using initializeWebRTC_registries [of eng asInitiator s]
    initializeWebRTC_forgets_connection [of eng s pc asInitiator p]
    initializeWebRTC_installs_connection [of eng s pc asInitiator]
    initializeWebRTC_construction_error [of eng s e asInitiator]
    initializeWebRTC_keeps_connection [of eng s e asInitiator]
  by simp

theorem initializeWebRTC_replaces_session_witness:
  "new_RTCPeerConnection sample_engine (iceServers active_session)
     = Inr \<lparr> signalingState = ''stable'', pc_localDescription = None,
             pc_remoteDescription = None, pc_tracks = 0, pc_channels = [] \<rparr>
   \<and> initializeWebRTC sample_engine True (active_session\<lparr> peerConnection := None \<rparr>)
       = initializeWebRTC sample_engine True active_session
   \<and> new_RTCPeerConnection failing_engine (iceServers active_session)
       = Inl ''Failed to construct RTCPeerConnection''
   \<and> peerConnection (initializeWebRTC failing_engine True active_session) = peerConnection active_session
   \<and> localCandidates (initializeWebRTC failing_engine True active_session) = []"
proof -
  have h1: "new_RTCPeerConnection sample_engine (iceServers active_session)
     = Inr \<lparr> signalingState = ''stable'', pc_localDescription = None,
             pc_remoteDescription = None, pc_tracks = 0, pc_channels = [] \<rparr>"
    by (simp add: sample_engine_def)
  have h2: "new_RTCPeerConnection failing_engine (iceServers active_session)
       = Inl ''Failed to construct RTCPeerConnection''"
    by (simp add: failing_engine_def)
  show ?thesis
    using initializeWebRTC_replaces_session [of sample_engine True active_session _ None]
      initializeWebRTC_replaces_session [of failing_engine True active_session _ _
        "''Failed to construct RTCPeerConnection''"] h1 h2
    by (simp add: clear_and_request_media_frame)
qed

lemma Map_get_Map_set: "Map_get (Map_set k v m) = (Map_get m)(k \<mapsto> v)"
proof
  fix x
  show "Map_get (Map_set k v m) x = ((Map_get m)(k \<mapsto> v)) x"
    by (induction m) (auto simp: Map_get_def)
qed

lemma Map_get_eq_map_of: "Map_get m = map_of m"
  by (rule ext) (simp add: Map_get_def)

lemma signalling_frame:
  "localCandidates (createOffer eng s) = localCandidates s"
  "remoteCandidates (createOffer eng s) = remoteCandidates s"
  "localCandidates (createOffer_timeout eng s) = localCandidates s"
  "remoteCandidates (createOffer_timeout eng s) = remoteCandidates s"
  "localCandidates (handleRemoteOffer eng s) = localCandidates s"
  "remoteCandidates (handleRemoteOffer eng s) = remoteCandidates s"
  "localCandidates (handleRemoteOffer_timeout eng s) = localCandidates s"
  "remoteCandidates (handleRemoteOffer_timeout eng s) = remoteCandidates s"
  "localCandidates (handleRemoteAnswer eng s) = localCandidates s"
  "remoteCandidates (handleRemoteAnswer eng s) = remoteCandidates s"
  by (simp_all add: createOffer_def createOffer_timeout_def handleRemoteOffer_def
      handleRemoteOffer_timeout_def handleRemoteAnswer_def Let_def
      split: option.split sum.split)

lemma remoteCandidates_step: "remoteCandidates (step eng ev s) = remoteCandidates s"
  by (cases ev) (simp_all add: signalling_frame onicecandidate_frame)

lemma Map_get_localCandidates_step:
  "Map_get (localCandidates (step eng ev s)) = Map_get (localCandidates s) ++ Map_get (recorded [ev])"
proof (cases ev)
  case (IceCandidate c)
  show ?thesis
  proof (cases c)
    case None
    then show ?thesis by (simp add: IceCandidate localCandidates_onicecandidate Map_get_eq_map_of)
  next
    case (Some candidate)
    then show ?thesis
      by (cases "parseICECandidate candidate")
         (simp_all add: IceCandidate localCandidates_onicecandidate Map_get_Map_set,
          simp_all add: Map_get_eq_map_of)
  qed
qed (simp_all add: signalling_frame Map_get_eq_map_of)

lemma recorded_Cons: "recorded (ev # evs) = recorded [ev] @ recorded evs"
proof (cases ev)
  case (IceCandidate c)
  show ?thesis
  proof (cases c)
    case None
    then show ?thesis by (simp add: IceCandidate)
  next
    case (Some candidate)
    then show ?thesis by (simp add: IceCandidate split: option.split)
  qed
qed simp_all

lemma rev_recorded_single: "rev (recorded [ev]) = recorded [ev]"
proof (cases ev)
  case (IceCandidate c)
  show ?thesis
  proof (cases c)
    case None
    then show ?thesis by (simp add: IceCandidate)
  next
    case (Some candidate)
    then show ?thesis by (simp add: IceCandidate split: option.split)
  qed
qed simp_all

lemma Map_get_localCandidates_run:
  "Map_get (localCandidates (run eng evs s)) = Map_get (localCandidates s) ++ Map_get (rev (recorded evs))"
proof (induction evs arbitrary: s)
  case Nil
  show ?case by (simp add: run_def Map_get_eq_map_of)
next
  case (Cons ev evs)
  have "Map_get (localCandidates (run eng (ev # evs) s))
      = Map_get (localCandidates (step eng ev s)) ++ Map_get (rev (recorded evs))"
    using Cons.IH [of "step eng ev s"] by (simp add: run_def)
  also have "\<dots> = (Map_get (localCandidates s) ++ Map_get (recorded [ev])) ++ Map_get (rev (recorded evs))"
    by (simp only: Map_get_localCandidates_step)
  also have "\<dots> = Map_get (localCandidates s) ++ Map_get (rev (recorded (ev # evs)))"
  proof -
    have "rev (recorded (ev # evs)) = rev (recorded evs) @ recorded [ev]"
      using recorded_Cons [of ev evs] rev_recorded_single [of ev] by simp
    then show ?thesis by (simp add: Map_get_eq_map_of)
  qed
  finally show ?case .
qed

lemma remoteCandidates_run: "remoteCandidates (run eng evs s) = remoteCandidates s"
  by (induction evs arbitrary: s) (simp_all add: run_def remoteCandidates_step)

lemma set_recorded:
  "set (recorded evs) = (\<Union>ev \<in> set evs. set (recorded [ev]))"
proof (induction evs)
  case Nil
  show ?case by simp
next
  case (Cons ev evs)
  then show ?case using recorded_Cons [of ev evs] by simp
qed

lemma consistent_set_eq: "set recs' = set recs \<Longrightarrow> consistent recs' = consistent recs"
  unfolding consistent_def by simp

lemma consistentD:
  assumes "consistent recs" and "(k, v) \<in> set recs" and "(k, v') \<in> set recs"
  shows "v = v'"
proof -
  have "\<forall>q \<in> set recs. fst (k, v) = fst q \<longrightarrow> snd (k, v) = snd q"
    using assms(1) assms(2) unfolding consistent_def by (rule bspec)
  then have "fst (k, v) = fst (k, v') \<longrightarrow> snd (k, v) = snd (k, v')"
    using assms(3) by (rule bspec)
  then show ?thesis by simp
qed

lemma consistent_map_of:
  assumes "consistent recs"
  shows "map_of recs k = Some v \<longleftrightarrow> (k, v) \<in> set recs"
proof
  assume "map_of recs k = Some v"
  then show "(k, v) \<in> set recs" by (rule map_of_SomeD)
next
  assume kv: "(k, v) \<in> set recs"
  then have "k \<in> fst ` set recs" by (rule image_eqI [rotated]) simp
  then have "k \<in> dom (map_of recs)" by (simp add: dom_map_of_conv_image_fst)
  then obtain v' where v': "map_of recs k = Some v'" by (auto simp: domIff)
  then have "(k, v') \<in> set recs" by (rule map_of_SomeD)
  have "v' = v" by (rule consistentD [OF assms \<open>(k, v') \<in> set recs\<close> kv])
  with v' show "map_of recs k = Some v" by simp
qed

lemma consistent_same_set:
  assumes "consistent recs" and "set recs' = set recs"
  shows "map_of recs' = map_of recs"
proof
  fix k
  have c': "consistent recs'" using assms(1) consistent_set_eq [OF assms(2)] by simp
  show "map_of recs' k = map_of recs k"
  proof (cases "map_of recs k")
    case None
    have "map_of recs' k = None"
    proof (rule ccontr)
      assume "map_of recs' k \<noteq> None"
      then obtain v where "map_of recs' k = Some v" by auto
      then have "(k, v) \<in> set recs'" by (rule map_of_SomeD)
      then have "(k, v) \<in> set recs" using assms(2) by simp
      then have "map_of recs k = Some v" by (rule iffD2 [OF consistent_map_of [OF assms(1)]])
      with None show False by simp
    qed
    then show ?thesis using None by simp
  next
    case (Some v)
    then have "(k, v) \<in> set recs" by (rule iffD1 [OF consistent_map_of [OF assms(1)]])
    then have "(k, v) \<in> set recs'" using assms(2) by simp
    then have "map_of recs' k = Some v" by (rule iffD2 [OF consistent_map_of [OF c']])
    then show ?thesis using Some by simp
  qed
qed

lemma reordering_consistent:
  assumes "set evs' = set evs" and "consistent (recorded evs)"
  shows "Map_get (localCandidates (run eng evs' s)) = Map_get (localCandidates (run eng evs s))"
proof -
  have "set (recorded evs') = set (recorded evs)"
    using assms(1)
    using set_recorded [of evs'] set_recorded [of evs] by simp
  then have "set (rev (recorded evs')) = set (rev (recorded evs))"
    by simp
  moreover have "consistent (rev (recorded evs))"
    using assms(2) consistent_set_eq [of "rev (recorded evs)" "recorded evs"] by simp
  ultimately have "map_of (rev (recorded evs')) = map_of (rev (recorded evs))"
    by (rule consistent_same_set [rotated])
  then show ?thesis
    unfolding Map_get_localCandidates_run by (simp add: Map_get_eq_map_of)
qed

text \<open>
  Claim C9, amended. After any sequence of candidate events, signalling calls, timers
  and text input, the local registry maps each foundation to the candidate that was
  recorded last under it, on top of what the registry held before; the remote registry
  is never written. Two sequences made of the same events, in any order, give the same
  content when no two recorded candidates share a foundation and differ.
\<close>

theorem registry_last_write_wins:
  "Map_get (localCandidates (run eng evs s)) = Map_get (localCandidates s) ++ Map_get (rev (recorded evs))
   \<and> remoteCandidates (run eng evs s) = remoteCandidates s
   \<and> (set evs' = set evs \<and> consistent (recorded evs) \<longrightarrow>
        Map_get (localCandidates (run eng evs' s)) = Map_get (localCandidates (run eng evs s)))"
  using Map_get_localCandidates_run [of eng evs s] remoteCandidates_run [of eng evs s]
    reordering_consistent [of evs' evs eng s]
  by simp

lemma recorded_candidates_then_offer:
  "recorded candidates_then_offer =
     [(Some ''1'', \<lparr> info_candidate = ''candidate:1 1 udp 2113937151 192.168.1.10 50001 typ host'',
            info_type = ''host'', info_protocol = ''udp'', info_address = ''192.168.1.10'',
            info_port = 50001, info_priority = 2113937151, info_foundation = ''candidate:1'' \<rparr>),
      (Some ''2'', \<lparr> info_candidate = ''candidate:2 1 udp 41885439 203.0.113.5 50003 typ relay'',
            info_type = ''relay'', info_protocol = ''udp'', info_address = ''203.0.113.5'',
            info_port = 50003, info_priority = 41885439, info_foundation = ''candidate:2'' \<rparr>)]"
  by (simp add: candidates_then_offer_def parse_host_candidate_1 parse_relay_candidate_2
      cand_foundation_examples)

theorem registry_last_write_wins_witness:
  "set offer_between_candidates = set candidates_then_offer
   \<and> consistent (recorded candidates_then_offer)
   \<and> Map_get (localCandidates (run sample_engine offer_between_candidates receiver_ready))
       = Map_get (localCandidates (run sample_engine candidates_then_offer receiver_ready))"
proof -
  have h1: "set offer_between_candidates = set candidates_then_offer"
    by (auto simp add: offer_between_candidates_def candidates_then_offer_def)
  have h2: "consistent (recorded candidates_then_offer)"
    unfolding recorded_candidates_then_offer by (simp add: consistent_def)
  show ?thesis
    using registry_last_write_wins
      [of sample_engine candidates_then_offer receiver_ready offer_between_candidates] h1 h2
    by simp
qed

lemma localCandidates_receiver_ready: "localCandidates receiver_ready = []"
  by (simp add: receiver_ready_eval fresh_session_def)

text \<open>
  Claim C9 as stated fails: the content depends on the order of arrival. Two candidates
  with the same foundation and different ports leave the one that arrived last.
\<close>

theorem registry_order_counterexample:
  "localCandidates (run sample_engine
       [IceCandidate (Some host_candidate_1), IceCandidate (Some host_candidate_1b)] receiver_ready)
     = [(Some ''1'', \<lparr> info_candidate = ''candidate:1 1 udp 2113937151 192.168.1.10 50002 typ host'',
            info_type = ''host'', info_protocol = ''udp'', info_address = ''192.168.1.10'',
            info_port = 50002, info_priority = 2113937151, info_foundation = ''candidate:1'' \<rparr>)]
   \<and> localCandidates (run sample_engine
       [IceCandidate (Some host_candidate_1b), IceCandidate (Some host_candidate_1)] receiver_ready)
     = [(Some ''1'', \<lparr> info_candidate = ''candidate:1 1 udp 2113937151 192.168.1.10 50001 typ host'',
            info_type = ''host'', info_protocol = ''udp'', info_address = ''192.168.1.10'',
            info_port = 50001, info_priority = 2113937151, info_foundation = ''candidate:1'' \<rparr>)]"
  by (simp add: run_def localCandidates_onicecandidate parse_host_candidate_1 parse_host_candidate_1b
      cand_foundation_examples localCandidates_receiver_ready)

end
